theory Spec2Isabelle
  imports Complex_Main "HOL-Library.Word"
begin

unbundle bit_operations_syntax

section \<open>The whisper JNI bridge (whisper\_jni.cpp)\<close>

text \<open>
  The file \<^verbatim>\<open>app/src/main/cpp/whisper_jni.cpp\<close> is a bridge between a Java caller and
  the whisper inference engine. Everything it does is a call into one of four
  collaborators: the JNI environment, the C file API, the Android asset manager and the
  engine. None of the four is part of the repository, so the model takes them as
  parameters (the record \<open>platform\<close> below) and records every call the bridge makes in a
  trace carried by the state. The bridge keeps no state of its own between calls: the
  source has no global variable.
\<close>

subsection \<open>Native data\<close>

type_synonym byte = "8 word"
type_synonym int16_t = "16 word"
type_synonym jint = "32 word"
type_synonym jlong = "64 word"
type_synonym jchar = "16 word"

text \<open>A Java string is a sequence of UTF-16 code units; a null reference is \<open>None\<close>.\<close>

type_synonym jstring = "jchar list"

text \<open>
  \<open>std::string\<close> is a byte sequence that may hold NUL bytes; \<open>c_str\<close> is what a reader
  of the NUL-terminated \<^verbatim>\<open>const char *\<close> sees of it: the bytes before the first NUL.
\<close>

definition c_str :: "string \<Rightarrow> string" where
  "c_str s = takeWhile (\<lambda>c. c \<noteq> CHR 0x00) s"

subsection \<open>The PCM reader: \<open>read_wav\<close>, the decoding loop\<close>

text \<open>
  \<^verbatim>\<open>fread(&sample, sizeof(int16_t), 1, file)\<close> stores the next two bytes of the file at
  the address of an \<open>int16_t\<close>; every Android ABI is little-endian, so the first byte is
  the low one. \<^verbatim>\<open>sample / 32768.0f\<close> converts the integer to \<open>float\<close> and divides by
  \<open>2^15\<close>: a 16-bit integer has at most 16 significant bits and the divisor is a power
  of two, so the binary32 quotient is exact and is modelled by the real number itself.
\<close>

definition int16_of_bytes :: "byte \<Rightarrow> byte \<Rightarrow> int16_t" where
  "int16_of_bytes b0 b1 = (push_bit 8 (ucast b1) OR ucast b0)"

definition pcm_sample :: "int16_t \<Rightarrow> real" where
  "pcm_sample sample = real_of_int (sint sample) / 32768"

text \<open>
  The loop \<^verbatim>\<open>while (fread(&sample, 2, 1, file) == 1) pcmf32.push_back(sample / 32768.0f)\<close>
  on the bytes that remain after the file position: \<open>fread\<close> returns 1 only when both
  bytes of an item were read.
\<close>

fun read_samples :: "byte list \<Rightarrow> real list" where
  "read_samples (b0 # b1 # rest) = pcm_sample (int16_of_bytes b0 b1) # read_samples rest"
| "read_samples [b0] = []"
| "read_samples [] = []"

text \<open>
  What the claims call the signed 16-bit little-endian integer of two bytes, written
  arithmetically: the unsigned value \<open>b0 + 256 * b1\<close>, read as two's complement.
\<close>

definition s16le :: "byte \<Rightarrow> byte \<Rightarrow> int" where
  "s16le b0 b1 =
     (let u = uint b0 + 256 * uint b1 in if u < 32768 then u else u - 65536)"

subsection \<open>The collaborators\<close>

text \<open>
  Object references and native handles are numbers. A context handle is the engine's
  \<^verbatim>\<open>struct whisper_context *\<close> cast to \<open>jlong\<close>; the null pointer is \<open>0\<close>.
\<close>

type_synonym jobject = nat
type_synonym jfloatArray = nat
type_synonym AAssetManager = nat
type_synonym AAsset = nat

datatype whisper_sampling_strategy = WHISPER_SAMPLING_GREEDY | WHISPER_SAMPLING_BEAM_SEARCH

text \<open>
  The fields of \<^verbatim>\<open>whisper_full_params\<close> that the bridge assigns. The struct is declared
  in the engine's header, which has more fields; they are the extension part of the
  record scheme, and the bridge never touches them.
\<close>

record whisper_full_params =
  print_progress :: bool
  print_special :: bool
  print_realtime :: bool
  print_timestamps :: bool
  translate :: bool
  language :: string
  n_threads :: jint
  offset_ms :: jint
  duration_ms :: jint
  single_segment :: bool
  max_tokens :: jint
  audio_ctx :: jint

text \<open>
  The functions of the collaborators the bridge calls, under their C names. The engine's
  functions act on the engine's own state \<open>'e\<close>; a \<^verbatim>\<open>const char *\<close> result that may be
  null is an \<open>option\<close>. \<open>String_getBytes s charset\<close> is the Java call
  \<^verbatim>\<open>s.getBytes(charset)\<close> made through \<^verbatim>\<open>CallObjectMethod\<close>. The context parameters
  (\<^verbatim>\<open>whisper_context_default_params()\<close>) are handed from the engine to the engine
  unchanged and are part of the two creation functions here. A buffer or sample pointer
  is passed as the sequence it points to, together with the length argument of the C
  call, which is a mathematical integer here.
\<close>

record ('e, 'z) platform =
  String_getBytes :: "jstring \<Rightarrow> jstring \<Rightarrow> string"
  NewStringUTF :: "string \<Rightarrow> jstring"
  AAssetManager_fromJava :: "jobject \<Rightarrow> AAssetManager option"
  AAssetManager_open :: "AAssetManager \<Rightarrow> string \<Rightarrow> AAsset option"
  AAsset_getLength :: "AAsset \<Rightarrow> int"
  AAsset_getBuffer :: "AAsset \<Rightarrow> byte list option"
  whisper_init_from_file_with_params :: "string \<Rightarrow> 'e \<Rightarrow> jlong \<times> 'e"
  whisper_init_from_buffer_with_params :: "byte list \<Rightarrow> int \<Rightarrow> 'e \<Rightarrow> jlong \<times> 'e"
  whisper_free :: "jlong \<Rightarrow> 'e \<Rightarrow> 'e"
  whisper_full_default_params :: "whisper_sampling_strategy \<Rightarrow> 'z whisper_full_params_scheme"
  whisper_full ::
    "jlong \<Rightarrow> 'z whisper_full_params_scheme \<Rightarrow> real list \<Rightarrow> int \<Rightarrow> 'e \<Rightarrow> jint \<times> 'e"
  whisper_full_n_segments :: "jlong \<Rightarrow> 'e \<Rightarrow> jint"
  whisper_full_get_segment_text :: "jlong \<Rightarrow> jint \<Rightarrow> 'e \<Rightarrow> string option"

subsection \<open>State and trace\<close>

datatype release_mode = JNI_MODE_0 | JNI_COMMIT | JNI_ABORT

text \<open>
  One event per call into a collaborator. \<open>LOGI\<close> and \<open>LOGE\<close> carry the format string
  of the log line, not its arguments.
\<close>

datatype event =
    LOGI string
  | LOGE string
  | Call_fopen string
  | Call_fseek nat
  | Call_fclose string
  | Call_GetFloatArrayElements jfloatArray
  | Call_GetArrayLength jfloatArray
  | Call_ReleaseFloatArrayElements jfloatArray release_mode
  | Call_AAssetManager_fromJava jobject
  | Call_AAssetManager_open AAssetManager string
  | Call_AAsset_getLength AAsset
  | Call_AAsset_getBuffer AAsset
  | Call_AAsset_close AAsset
  | Call_whisper_init_from_file string
  | Call_whisper_init_from_buffer int
  | Call_whisper_free jlong
  | Call_whisper_full jlong int
  | Call_whisper_full_n_segments jlong
  | Call_whisper_full_get_segment_text jlong jint

text \<open>
  The state a call runs in: the engine's state, the file system (\<open>None\<close>: the file
  cannot be opened), the float arrays of the Java heap (\<open>None\<close>: not a reference to an
  array, null included), the assets that are open, and the trace.
\<close>

record 'e world =
  engine :: 'e
  files :: "string \<Rightarrow> byte list option"
  java_arrays :: "jfloatArray \<Rightarrow> real list option"
  open_assets :: "AAsset list"
  trace :: "event list"

text \<open>
  The two ways a call does not return: JNI aborts the process on an array access
  through a reference that is not an array, and \<^verbatim>\<open>operator<<\<close> on a null
  \<^verbatim>\<open>const char *\<close> is undefined (libc++ takes its \<open>strlen\<close>).
\<close>

datatype fault = Not_an_array | Null_text_pointer

definition emit :: "event \<Rightarrow> 'e world \<Rightarrow> 'e world" where
  "emit ev w = w\<lparr>trace := trace w @ [ev]\<rparr>"

definition call_GetFloatArrayElements ::
  "jfloatArray \<Rightarrow> 'e world \<Rightarrow> fault + (real list \<times> 'e world)" where
  "call_GetFloatArrayElements a w =
     (case java_arrays w a of
        None \<Rightarrow> Inl Not_an_array
      | Some xs \<Rightarrow> Inr (xs, emit (Call_GetFloatArrayElements a) w))"

definition call_GetArrayLength :: "jfloatArray \<Rightarrow> 'e world \<Rightarrow> fault + (int \<times> 'e world)" where
  "call_GetArrayLength a w =
     (case java_arrays w a of
        None \<Rightarrow> Inl Not_an_array
      | Some xs \<Rightarrow> Inr (int (length xs), emit (Call_GetArrayLength a) w))"

text \<open>
  Releasing the native copy \<open>buf\<close> of array \<open>a\<close>: mode 0 and \<open>JNI_COMMIT\<close> copy the
  buffer back into the array, \<open>JNI_ABORT\<close> does not.
\<close>

definition call_ReleaseFloatArrayElements ::
  "jfloatArray \<Rightarrow> real list \<Rightarrow> release_mode \<Rightarrow> 'e world \<Rightarrow> 'e world" where
  "call_ReleaseFloatArrayElements a buf mode w =
     emit (Call_ReleaseFloatArrayElements a mode)
       (if mode = JNI_ABORT then w else w\<lparr>java_arrays := (java_arrays w)(a := Some buf)\<rparr>)"

definition call_AAssetManager_fromJava ::
  "('e, 'z) platform \<Rightarrow> jobject \<Rightarrow> 'e world \<Rightarrow> AAssetManager option \<times> 'e world" where
  "call_AAssetManager_fromJava P assetManager w =
     (AAssetManager_fromJava P assetManager, emit (Call_AAssetManager_fromJava assetManager) w)"

definition call_AAssetManager_open ::
  "('e, 'z) platform \<Rightarrow> AAssetManager \<Rightarrow> string \<Rightarrow> 'e world \<Rightarrow> AAsset option \<times> 'e world" where
  "call_AAssetManager_open P mgr path w =
     (case AAssetManager_open P mgr path of
        None \<Rightarrow> (None, emit (Call_AAssetManager_open mgr path) w)
      | Some asset \<Rightarrow>
          (Some asset,
           emit (Call_AAssetManager_open mgr path) (w\<lparr>open_assets := asset # open_assets w\<rparr>)))"

definition call_AAsset_getLength :: "('e, 'z) platform \<Rightarrow> AAsset \<Rightarrow> 'e world \<Rightarrow> int \<times> 'e world" where
  "call_AAsset_getLength P asset w = (AAsset_getLength P asset, emit (Call_AAsset_getLength asset) w)"

definition call_AAsset_getBuffer ::
  "('e, 'z) platform \<Rightarrow> AAsset \<Rightarrow> 'e world \<Rightarrow> byte list option \<times> 'e world" where
  "call_AAsset_getBuffer P asset w = (AAsset_getBuffer P asset, emit (Call_AAsset_getBuffer asset) w)"

definition call_AAsset_close :: "AAsset \<Rightarrow> 'e world \<Rightarrow> 'e world" where
  "call_AAsset_close asset w =
     emit (Call_AAsset_close asset) (w\<lparr>open_assets := remove1 asset (open_assets w)\<rparr>)"

definition call_whisper_init_from_file ::
  "('e, 'z) platform \<Rightarrow> string \<Rightarrow> 'e world \<Rightarrow> jlong \<times> 'e world" where
  "call_whisper_init_from_file P path w =
     (case whisper_init_from_file_with_params P path (engine w) of
        (ctx, e) \<Rightarrow> (ctx, emit (Call_whisper_init_from_file path) (w\<lparr>engine := e\<rparr>)))"

definition call_whisper_init_from_buffer ::
  "('e, 'z) platform \<Rightarrow> byte list \<Rightarrow> int \<Rightarrow> 'e world \<Rightarrow> jlong \<times> 'e world" where
  "call_whisper_init_from_buffer P buffer buffer_size w =
     (case whisper_init_from_buffer_with_params P buffer buffer_size (engine w) of
        (ctx, e) \<Rightarrow> (ctx, emit (Call_whisper_init_from_buffer buffer_size) (w\<lparr>engine := e\<rparr>)))"

definition call_whisper_free :: "('e, 'z) platform \<Rightarrow> jlong \<Rightarrow> 'e world \<Rightarrow> 'e world" where
  "call_whisper_free P ctx w =
     emit (Call_whisper_free ctx) (w\<lparr>engine := whisper_free P ctx (engine w)\<rparr>)"

definition call_whisper_full ::
  "('e, 'z) platform \<Rightarrow> jlong \<Rightarrow> 'z whisper_full_params_scheme \<Rightarrow> real list \<Rightarrow> int \<Rightarrow>
     'e world \<Rightarrow> jint \<times> 'e world" where
  "call_whisper_full P ctx wparams samples n_samples w =
     (case whisper_full P ctx wparams samples n_samples (engine w) of
        (status, e) \<Rightarrow> (status, emit (Call_whisper_full ctx n_samples) (w\<lparr>engine := e\<rparr>)))"

definition call_whisper_full_n_segments ::
  "('e, 'z) platform \<Rightarrow> jlong \<Rightarrow> 'e world \<Rightarrow> jint \<times> 'e world" where
  "call_whisper_full_n_segments P ctx w =
     (whisper_full_n_segments P ctx (engine w), emit (Call_whisper_full_n_segments ctx) w)"

definition call_whisper_full_get_segment_text ::
  "('e, 'z) platform \<Rightarrow> jlong \<Rightarrow> jint \<Rightarrow> 'e world \<Rightarrow> string option \<times> 'e world" where
  "call_whisper_full_get_segment_text P ctx i w =
     (whisper_full_get_segment_text P ctx i (engine w),
      emit (Call_whisper_full_get_segment_text ctx i) w)"

subsection \<open>The helpers \<open>jstring2string\<close> and \<open>read_wav\<close>\<close>

text \<open>
  \<open>jstring2string\<close> returns the empty string for a null reference; otherwise it asks
  Java for the string's bytes in the charset named \<open>UTF-8\<close> and copies all of them
  (\<^verbatim>\<open>std::string((char *)pBytes, length)\<close>), NUL bytes included.
\<close>

definition jstring2string :: "('e, 'z) platform \<Rightarrow> jstring option \<Rightarrow> string" where
  "jstring2string P jStr =
     (case jStr of
        None \<Rightarrow> []
      | Some s \<Rightarrow> String_getBytes P s (NewStringUTF P ''UTF-8''))"

text \<open>
  \<open>read_wav\<close>: open the file named by \<open>fname.c_str()\<close>; when that fails, log and return
  no samples; otherwise seek to byte 44 (a position past the end of a shorter file,
  where every read returns nothing), run the decoding loop, close the file and log.
\<close>

definition read_wav :: "string \<Rightarrow> 'e world \<Rightarrow> real list \<times> 'e world" where
  "read_wav fname w =
     (case files w (c_str fname) of
        None \<Rightarrow>
          ([], emit (LOGE ''Failed to open audio file: %s'') (emit (Call_fopen (c_str fname)) w))
      | Some bytes \<Rightarrow>
          (let w1 = emit (Call_fopen (c_str fname)) w;
               w2 = emit (Call_fseek 44) w1;
               pcmf32 = read_samples (drop 44 bytes);
               w3 = emit (Call_fclose (c_str fname)) w2;
               w4 = emit (LOGI ''Read %zu samples from %s'') w3
           in (pcmf32, w4)))"

subsection \<open>The entry points of \<open>WhisperService\<close>\<close>

definition Java_com_memexos_app_whisper_WhisperService_initContext ::
  "('e, 'z) platform \<Rightarrow> jstring option \<Rightarrow> 'e world \<Rightarrow> jlong \<times> 'e world" where
  "Java_com_memexos_app_whisper_WhisperService_initContext P modelPath w =
     (let model_path = jstring2string P modelPath;
          w1 = emit (LOGI ''Initializing Whisper context with model: %s'') w
      in case call_whisper_init_from_file P (c_str model_path) w1 of
           (ctx, w2) \<Rightarrow>
             if ctx = 0 then (0, emit (LOGE ''Failed to load model from: %s'') w2)
             else (ctx, emit (LOGI ''Whisper context initialized successfully'') w2))"

definition Java_com_memexos_app_whisper_WhisperService_initContextFromAsset ::
  "('e, 'z) platform \<Rightarrow> jobject \<Rightarrow> jstring option \<Rightarrow> 'e world \<Rightarrow> jlong \<times> 'e world" where
  "Java_com_memexos_app_whisper_WhisperService_initContextFromAsset P assetManager assetPath w =
     (let asset_path = jstring2string P assetPath;
          w1 = emit (LOGI ''Initializing Whisper context from asset: %s'') w
      in case call_AAssetManager_fromJava P assetManager w1 of
           (None, w2) \<Rightarrow> (0, emit (LOGE ''Failed to get native asset manager'') w2)
         | (Some mgr, w2) \<Rightarrow>
             (case call_AAssetManager_open P mgr (c_str asset_path) w2 of
                (None, w3) \<Rightarrow> (0, emit (LOGE ''Failed to open asset: %s'') w3)
              | (Some asset, w3) \<Rightarrow>
                  (case call_AAsset_getLength P asset w3 of
                     (asset_size, w4) \<Rightarrow>
                       (case call_AAsset_getBuffer P asset w4 of
                          (asset_data, w5) \<Rightarrow>
                            (case asset_data of
                               None \<Rightarrow>
                                 (0, call_AAsset_close asset
                                       (emit (LOGE ''Failed to read asset data: %s'') w5))
                             | Some buffer \<Rightarrow>
                                 if asset_size \<le> 0 then
                                   (0, call_AAsset_close asset
                                         (emit (LOGE ''Failed to read asset data: %s'') w5))
                                 else
                                   (let w6 = emit
                                          (LOGI ''Asset loaded successfully: %s (size: %ld bytes)'') w5
                                    in case call_whisper_init_from_buffer P buffer asset_size w6 of
                                         (ctx, w7) \<Rightarrow>
                                           (let w8 = call_AAsset_close asset w7
                                            in if ctx = 0 then
                                                 (0, emit (LOGE
                                                   ''Failed to initialize Whisper context from asset: %s'') w8)
                                               else
                                                 (ctx, emit (LOGI
                                                   ''Whisper context initialized successfully from asset'')
                                                   w8))))))))"

definition Java_com_memexos_app_whisper_WhisperService_freeContext ::
  "('e, 'z) platform \<Rightarrow> jlong \<Rightarrow> 'e world \<Rightarrow> 'e world" where
  "Java_com_memexos_app_whisper_WhisperService_freeContext P contextPtr w =
     (if contextPtr \<noteq> 0 then emit (LOGI ''Whisper context freed'') (call_whisper_free P contextPtr w)
      else w)"

text \<open>The parameter block of \<open>fullTranscribe\<close> (lines 170 to 182).\<close>

definition fullTranscribe_wparams ::
  "('e, 'z) platform \<Rightarrow> jint \<Rightarrow> 'z whisper_full_params_scheme" where
  "fullTranscribe_wparams P numThreads =
     (whisper_full_default_params P WHISPER_SAMPLING_GREEDY)
       \<lparr>print_progress := False,
        print_special := False,
        print_realtime := False,
        print_timestamps := False,
        translate := False,
        language := ''en'',
        n_threads := numThreads,
        offset_ms := 0,
        duration_ms := 0,
        single_segment := False,
        max_tokens := 0,
        audio_ctx := 0\<rparr>"

definition Java_com_memexos_app_whisper_WhisperService_fullTranscribe ::
  "('e, 'z) platform \<Rightarrow> jlong \<Rightarrow> jint \<Rightarrow> jfloatArray \<Rightarrow> 'e world \<Rightarrow> fault + 'e world" where
  "Java_com_memexos_app_whisper_WhisperService_fullTranscribe P contextPtr numThreads audioData w =
     (if contextPtr = 0 then Inr (emit (LOGE ''Invalid context pointer'') w)
      else
        case call_GetFloatArrayElements audioData w of
          Inl f \<Rightarrow> Inl f
        | Inr (audio, w1) \<Rightarrow>
            (case call_GetArrayLength audioData w1 of
               Inl f \<Rightarrow> Inl f
             | Inr (audioLength, w2) \<Rightarrow>
                 (let w3 = emit (LOGI ''Processing %d audio samples with %d threads'') w2;
                      wparams = fullTranscribe_wparams P numThreads
                  in case call_whisper_full P contextPtr wparams audio audioLength w3 of
                       (result, w4) \<Rightarrow>
                         (let w5 = call_ReleaseFloatArrayElements audioData audio JNI_ABORT w4
                          in if result \<noteq> 0 then
                               Inr (emit (LOGE ''Failed to process audio, error code: %d'') w5)
                             else
                               Inr (emit (LOGI ''Audio processing completed successfully'') w5)))))"

definition Java_com_memexos_app_whisper_WhisperService_getTextSegmentCount ::
  "('e, 'z) platform \<Rightarrow> jlong \<Rightarrow> 'e world \<Rightarrow> jint \<times> 'e world" where
  "Java_com_memexos_app_whisper_WhisperService_getTextSegmentCount P contextPtr w =
     (if contextPtr = 0 then (0, emit (LOGE ''Invalid context pointer'') w)
      else call_whisper_full_n_segments P contextPtr w)"

definition Java_com_memexos_app_whisper_WhisperService_getTextSegment ::
  "('e, 'z) platform \<Rightarrow> jlong \<Rightarrow> jint \<Rightarrow> 'e world \<Rightarrow> jstring \<times> 'e world" where
  "Java_com_memexos_app_whisper_WhisperService_getTextSegment P contextPtr index w =
     (if contextPtr = 0 then (NewStringUTF P [], emit (LOGE ''Invalid context pointer'') w)
      else
        case call_whisper_full_get_segment_text P contextPtr index w of
          (text, w1) \<Rightarrow>
            (NewStringUTF P (case text of None \<Rightarrow> [] | Some t \<Rightarrow> c_str t), w1))"

subsection \<open>The legacy entry points of \<open>WhisperWrapper\<close>\<close>

text \<open>The parameter block of \<open>nativeTranscribe\<close> (lines 261 to 275).\<close>

definition nativeTranscribe_wparams :: "('e, 'z) platform \<Rightarrow> 'z whisper_full_params_scheme" where
  "nativeTranscribe_wparams P =
     (whisper_full_default_params P WHISPER_SAMPLING_GREEDY)
       \<lparr>print_progress := False,
        print_special := False,
        print_realtime := False,
        print_timestamps := False,
        translate := False,
        language := ''en'',
        n_threads := 4,
        offset_ms := 0,
        duration_ms := 0,
        single_segment := False,
        max_tokens := 0,
        audio_ctx := 0\<rparr>"

text \<open>
  The loop over the segments (lines 290 to 296), from index \<open>i\<close> on, with the stream's
  contents so far in \<open>result\<close>. Segment \<open>i\<close>'s text is read up to its NUL and appended,
  then one space unless \<open>i\<close> is the last index. A null text pointer is a fault.
\<close>

function segments_loop ::
  "('e, 'z) platform \<Rightarrow> jlong \<Rightarrow> int \<Rightarrow> int \<Rightarrow> string \<Rightarrow> 'e world \<Rightarrow> fault + (string \<times> 'e world)" where
  "segments_loop P ctx n_segments i result w =
     (if i < n_segments then
        (case call_whisper_full_get_segment_text P ctx (word_of_int i) w of
           (None, w1) \<Rightarrow> Inl Null_text_pointer
         | (Some t, w1) \<Rightarrow>
             segments_loop P ctx n_segments (i + 1)
               (result @ c_str t @ (if i < n_segments - 1 then '' '' else [])) w1)
      else Inr (result, w))"
  by pat_completeness auto
termination
  by (relation "measure (\<lambda>(P, ctx, n_segments, i, result, w). nat (n_segments - i))") auto

declare segments_loop.simps [simp del]

text \<open>
  \<^verbatim>\<open>pcmf32.size()\<close> is a \<open>size_t\<close>, and the sample count the engine's transcription
  call takes is a C \<open>int\<close>: the call of line 279 converts the one to the other, which
  keeps the low 32 bits and reads them as two's complement. Below \<open>2^31\<close> samples the
  count arrives as it is; from there on it does not.
\<close>

definition int_of_size_t :: "nat \<Rightarrow> int" where
  "int_of_size_t n = sint (word_of_nat n :: jint)"

definition Java_com_example_memexos_WhisperWrapper_nativeTranscribe ::
  "('e, 'z) platform \<Rightarrow> jstring option \<Rightarrow> jstring option \<Rightarrow> 'e world \<Rightarrow>
     fault + (jstring \<times> 'e world)" where
  "Java_com_example_memexos_WhisperWrapper_nativeTranscribe P audioPath modelPath w =
     (let audio_path = jstring2string P audioPath;
          model_path = jstring2string P modelPath;
          w1 = emit (LOGI ''Starting transcription - Audio: %s, Model: %s'') w
      in case call_whisper_init_from_file P (c_str model_path) w1 of
           (ctx, w2) \<Rightarrow>
             if ctx = 0 then
               Inr (NewStringUTF P ''Error: Failed to load model'',
                    emit (LOGE ''Failed to load model from: %s'') w2)
             else
               (case read_wav audio_path w2 of
                  (pcmf32, w3) \<Rightarrow>
                    if pcmf32 = [] then
                      Inr (NewStringUTF P ''Error: Failed to read audio file'',
                           call_whisper_free P ctx w3)
                    else
                      (let wparams = nativeTranscribe_wparams P;
                           w4 = emit (LOGI ''Processing %zu samples...'') w3
                       in case call_whisper_full P ctx wparams pcmf32 (int_of_size_t (length pcmf32))
                                 w4 of
                            (status, w5) \<Rightarrow>
                              if status \<noteq> 0 then
                                Inr (NewStringUTF P ''Error: Failed to process audio'',
                                     call_whisper_free P ctx (emit (LOGE ''Failed to process audio'') w5))
                              else
                                (case call_whisper_full_n_segments P ctx w5 of
                                   (n_segments, w6) \<Rightarrow>
                                     (let w7 = emit (LOGI ''Found %d segments'') w6
                                      in case segments_loop P ctx (sint n_segments) 0 [] w7 of
                                           Inl f \<Rightarrow> Inl f
                                         | Inr (transcription, w8) \<Rightarrow>
                                             (let w9 = call_whisper_free P ctx w8;
                                                  w10 = emit (LOGI ''Transcription complete: %s'') w9
                                              in Inr (NewStringUTF P (c_str transcription), w10)))))))"

definition Java_com_example_memexos_WhisperWrapper_nativeInit :: "'e world \<Rightarrow> 'e world" where
  "Java_com_example_memexos_WhisperWrapper_nativeInit w =
     emit (LOGI ''WhisperJNI initialized (legacy)'') w"

definition Java_com_example_memexos_WhisperWrapper_nativeCleanup :: "'e world \<Rightarrow> 'e world" where
  "Java_com_example_memexos_WhisperWrapper_nativeCleanup w =
     emit (LOGI ''WhisperJNI cleanup (legacy)'') w"

subsection \<open>Reading a trace\<close>

text \<open>The events a call added: the trace of the state it returned, past the trace it started with.\<close>

definition events_since :: "'e world \<Rightarrow> 'e world \<Rightarrow> event list" where
  "events_since w w' = drop (length (trace w)) (trace w')"

fun is_log :: "event \<Rightarrow> bool" where
  "is_log (LOGI m) = True"
| "is_log (LOGE m) = True"
| "is_log ev = False"

fun is_file_call :: "event \<Rightarrow> bool" where
  "is_file_call (Call_fopen path) = True"
| "is_file_call (Call_fseek pos) = True"
| "is_file_call (Call_fclose path) = True"
| "is_file_call ev = False"

fun is_transcription :: "event \<Rightarrow> bool" where
  "is_transcription (Call_whisper_full ctx n_samples) = True"
| "is_transcription ev = False"

fun is_array_release :: "event \<Rightarrow> bool" where
  "is_array_release (Call_ReleaseFloatArrayElements a mode) = True"
| "is_array_release ev = False"

fun is_asset_close :: "event \<Rightarrow> bool" where
  "is_asset_close (Call_AAsset_close asset) = True"
| "is_asset_close ev = False"

fun is_buffer_load :: "event \<Rightarrow> bool" where
  "is_buffer_load (Call_whisper_init_from_buffer buffer_size) = True"
| "is_buffer_load ev = False"

fun is_context_free :: "event \<Rightarrow> bool" where
  "is_context_free (Call_whisper_free ctx) = True"
| "is_context_free ev = False"

text \<open>
  Strings joined with one space between neighbours, none before the first and none after
  the last: the transcript the legacy entry point is said to return.
\<close>

fun join_with_spaces :: "string list \<Rightarrow> string" where
  "join_with_spaces [] = []"
| "join_with_spaces [t] = t"
| "join_with_spaces (t # u # ts) = t @ '' '' @ join_with_spaces (u # ts)"

subsection \<open>A stand-in platform for running the bridge\<close>

text \<open>
  A small, executable instance of the collaborators, used to run the bridge on concrete
  inputs. Its Java strings are ASCII. Its engine loads the model \<open>model.bin\<close> (or a buffer
  that starts with the byte \<open>0x67\<close>), refuses audio of fewer than two samples, and
  writes the texts of a transcription over the front of its text slots, as a C library
  with preallocated buffers would: a slot past the current segment count keeps the text
  of an earlier transcription.
\<close>

record sim_engine =
  sim_live :: "jlong list"
  sim_n_segments :: jint
  sim_slots :: "string list"

definition sim_NewStringUTF :: "string \<Rightarrow> jstring" where
  "sim_NewStringUTF s = map (\<lambda>c. of_nat (of_char c)) s"

definition sim_String_getBytes :: "jstring \<Rightarrow> jstring \<Rightarrow> string" where
  "sim_String_getBytes s charset =
     (if charset = sim_NewStringUTF ''UTF-8'' then map (\<lambda>u. char_of (unat u)) s else [])"

definition sim_init_from_file :: "string \<Rightarrow> sim_engine \<Rightarrow> jlong \<times> sim_engine" where
  "sim_init_from_file path e =
     (if path = ''model.bin'' then (0x7000, e\<lparr>sim_live := 0x7000 # sim_live e\<rparr>) else (0, e))"

definition sim_init_from_buffer :: "byte list \<Rightarrow> int \<Rightarrow> sim_engine \<Rightarrow> jlong \<times> sim_engine" where
  "sim_init_from_buffer buffer buffer_size e =
     (if take 1 buffer = [0x67] then (0x7100, e\<lparr>sim_live := 0x7100 # sim_live e\<rparr>) else (0, e))"

definition sim_free :: "jlong \<Rightarrow> sim_engine \<Rightarrow> sim_engine" where
  "sim_free ctx e = e\<lparr>sim_live := remove1 ctx (sim_live e)\<rparr>"

definition sim_default_params :: "whisper_sampling_strategy \<Rightarrow> whisper_full_params" where
  "sim_default_params strategy =
     \<lparr>print_progress = True, print_special = False, print_realtime = False,
      print_timestamps = True, translate = False, language = ''auto'', n_threads = 2,
      offset_ms = 0, duration_ms = 0, single_segment = False, max_tokens = 0, audio_ctx = 0\<rparr>"

definition sim_full ::
  "jlong \<Rightarrow> whisper_full_params \<Rightarrow> real list \<Rightarrow> int \<Rightarrow> sim_engine \<Rightarrow> jint \<times> sim_engine" where
  "sim_full ctx wparams samples n_samples e =
     (if n_samples < 2 then (1, e)
      else
        (let texts = (if n_samples < 4 then [''hi''] else [''hello'', ''world''])
         in (0, e\<lparr>sim_n_segments := of_nat (length texts),
                  sim_slots := texts @ drop (length texts) (sim_slots e)\<rparr>)))"

definition sim_get_segment_text :: "jlong \<Rightarrow> jint \<Rightarrow> sim_engine \<Rightarrow> string option" where
  "sim_get_segment_text ctx i e =
     (if 0 \<le> sint i \<and> nat (sint i) < length (sim_slots e) then Some (sim_slots e ! nat (sint i))
      else None)"

definition sim_platform :: "(sim_engine, unit) platform" where
  "sim_platform =
     \<lparr>String_getBytes = sim_String_getBytes,
      NewStringUTF = sim_NewStringUTF,
      AAssetManager_fromJava = (\<lambda>obj. if obj = 1 then Some 10 else None),
      AAssetManager_open =
        (\<lambda>mgr path. if path = ''ggml.bin'' then Some 20
                      else if path = ''empty.bin'' then Some 21 else None),
      AAsset_getLength = (\<lambda>asset. if asset = 20 then 4 else 0),
      AAsset_getBuffer =
        (\<lambda>asset. if asset = 20 then Some [0x67, 0x67, 0x6D, 0x6C]
                   else if asset = 21 then Some [] else None),
      whisper_init_from_file_with_params = sim_init_from_file,
      whisper_init_from_buffer_with_params = sim_init_from_buffer,
      whisper_free = sim_free,
      whisper_full_default_params = sim_default_params,
      whisper_full = sim_full,
      whisper_full_n_segments = (\<lambda>ctx e. sim_n_segments e),
      whisper_full_get_segment_text = sim_get_segment_text\<rparr>"

text \<open>
  The starting state: no context, a file \<open>a.wav\<close> of a 44-byte header, two samples and
  one more byte, a file \<open>short.wav\<close> of ten bytes, a file \<open>one.wav\<close> of a header and
  one sample, a file \<open>four.wav\<close> of a header and four samples, and three Java arrays of
  four, two and one samples.
\<close>

definition sim_files :: "string \<Rightarrow> byte list option" where
  "sim_files path =
     (if path = ''a.wav'' then Some (replicate 44 0 @ [0x00, 0x80, 0xFF, 0x7F, 0x01])
      else if path = ''short.wav'' then Some (replicate 10 0)
      else if path = ''one.wav'' then Some (replicate 44 0 @ [0x00, 0x40])
      else if path = ''four.wav'' then
        Some (replicate 44 0 @ [0x00, 0x40, 0x00, 0xC0, 0x00, 0x20, 0x00, 0x10])
      else None)"

definition sim_world :: "sim_engine world" where
  "sim_world =
     \<lparr>engine = \<lparr>sim_live = [], sim_n_segments = 0, sim_slots = []\<rparr>,
      files = sim_files,
      java_arrays =
        (\<lambda>a. if a = 1 then Some [0, 1 / 2, - 1 / 2, 1 / 4]
              else if a = 2 then Some [0, 1 / 4]
              else if a = 3 then Some [1 / 8] else None),
      open_assets = [],
      trace = []\<rparr>"

text \<open>Java strings of the stand-in platform, for the path arguments.\<close>

definition sim_jstring :: "string \<Rightarrow> jstring option" where
  "sim_jstring s = Some (sim_NewStringUTF s)"

text \<open>
  The state after a context was created from \<open>model.bin\<close> and two transcriptions ran
  on it: first the array of four samples (two segments), then the array of two samples
  (one segment).
\<close>

definition sim_after_two_runs :: "sim_engine world" where
  "sim_after_two_runs =
     (case Java_com_memexos_app_whisper_WhisperService_initContext sim_platform
             (sim_jstring ''model.bin'') sim_world of
        (ctx, w1) \<Rightarrow>
          (case Java_com_memexos_app_whisper_WhisperService_fullTranscribe sim_platform ctx 4 1 w1 of
             Inl f \<Rightarrow> w1
           | Inr w2 \<Rightarrow>
               (case Java_com_memexos_app_whisper_WhisperService_fullTranscribe sim_platform ctx 4 2 w2 of
                  Inl f \<Rightarrow> w2
                | Inr w3 \<Rightarrow> w3)))"

section \<open>Properties\<close>

subsection \<open>Decoding PCM samples\<close>

lemma length_read_samples: "length (read_samples bs) = length bs div 2"
  by (induction bs rule: read_samples.induct) simp_all

lemma nth_read_samples:
  "i < length bs div 2 \<Longrightarrow>
     read_samples bs ! i = pcm_sample (int16_of_bytes (bs ! (2 * i)) (bs ! (2 * i + 1)))"
proof (induction bs arbitrary: i rule: read_samples.induct)
  case (1 b0 b1 rest)
  then show ?case by (cases i) simp_all
qed simp_all

lemma read_samples_odd_tail:
  "even (length bs) \<Longrightarrow> read_samples (bs @ [b]) = read_samples bs"
  by (induction bs rule: read_samples.induct) simp_all

lemma int16_of_bytes_plus: "int16_of_bytes b0 b1 = push_bit 8 (ucast b1) + ucast b0"
proof -
  have "int16_of_bytes b0 b1 = word_cat b1 b0"
    by (simp add: int16_of_bytes_def word_cat_eq_push_bit_or)
  then show ?thesis by (simp add: word_cat_eq)
qed

lemma uint_byte_less: "uint (b :: byte) < 256"
  using uint_lt2p [of b] by simp

lemma uint_int16_of_bytes: "uint (int16_of_bytes b0 b1) = uint b0 + 256 * uint b1"
proof -
  have b0: "uint b0 < 256" and b1: "uint b1 < 256"
    by (rule uint_byte_less)+
  have u0: "uint (ucast b0 :: int16_t) = uint b0"
    by (simp add: uint_up_ucast is_up)
  have u1: "uint (ucast b1 :: int16_t) = uint b1"
    by (simp add: uint_up_ucast is_up)
  have "uint (push_bit 8 (ucast b1 :: int16_t)) = (uint (ucast b1 :: int16_t) * 256) mod 65536"
    by (simp add: push_bit_eq_mult uint_word_ariths)
  also have "\<dots> = 256 * uint b1"
    using b1 by (simp add: u1)
  finally have u2: "uint (push_bit 8 (ucast b1 :: int16_t)) = 256 * uint b1" .
  have "uint (int16_of_bytes b0 b1) = (256 * uint b1 + uint b0) mod 65536"
    by (simp add: int16_of_bytes_plus uint_word_ariths u0 u2)
  also have "\<dots> = 256 * uint b1 + uint b0"
    using b0 b1 by simp
  finally show ?thesis by simp
qed

text \<open>The word the two bytes form, read as signed, is the little-endian integer.\<close>

lemma sint_int16_of_bytes: "sint (int16_of_bytes b0 b1) = s16le b0 b1"
proof -
  define u where "u = uint b0 + 256 * uint b1"
  have b0: "uint b0 < 256" and b1: "uint b1 < 256"
    by (rule uint_byte_less)+
  have range: "0 \<le> u" "u < 65536"
    using b0 b1 by (simp_all add: u_def)
  have "sint (int16_of_bytes b0 b1) = signed_take_bit 15 u"
    by (simp add: sint_uint uint_int16_of_bytes u_def)
  also have "\<dots> = (u + 32768) mod 65536 - 32768"
    by (simp add: signed_take_bit_eq_take_bit_shift take_bit_eq_mod)
  also have "\<dots> = (if u < 32768 then u else u - 65536)"
  proof (cases "u < 32768")
    case True
    then show ?thesis using range by simp
  next
    case False
    have "u + 32768 = u - 32768 + 65536"
      by arith
    then have "(u + 32768) mod 65536 = (u - 32768 + 65536) mod 65536"
      by (rule arg_cong)
    also have "\<dots> = (u - 32768) mod 65536"
      by (rule mod_add_self2)
    also have "\<dots> = u - 32768"
      using False range by simp
    finally show ?thesis using False by simp
  qed
  finally show ?thesis by (simp add: s16le_def u_def Let_def)
qed

lemma pcm_sample_bounds: "- 1 \<le> pcm_sample x \<and> pcm_sample x \<le> 32767 / 32768"
proof -
  have "- 32768 \<le> sint x" "sint x \<le> 32767"
    using sint_ge [of x] sint_lt [of x] by simp_all
  then have "- 32768 \<le> real_of_int (sint x)" "real_of_int (sint x) \<le> 32767"
    by linarith+
  then show ?thesis unfolding pcm_sample_def by (simp del: of_int_sint)
qed

lemma set_read_samples_bounds: "x \<in> set (read_samples bs) \<Longrightarrow> - 1 \<le> x \<and> x \<le> 32767 / 32768"
proof (induction bs rule: read_samples.induct)
  case (1 b0 b1 rest)
  then consider "x = pcm_sample (int16_of_bytes b0 b1)" | "x \<in> set (read_samples rest)"
    by auto
  then show ?case
  proof cases
    case 1
    then show ?thesis using pcm_sample_bounds by blast
  next
    case 2
    then show ?thesis by (rule "1.IH")
  qed
qed simp_all

lemma fst_read_wav:
  "fst (read_wav fname w) =
     (case files w (c_str fname) of None \<Rightarrow> [] | Some bytes \<Rightarrow> read_samples (drop 44 bytes))"
  by (simp add: read_wav_def Let_def split: option.split)

text \<open>
  C5. For a file that can be opened and holds \<open>b\<close> bytes, \<open>read_wav\<close> returns
  \<open>max 0 ((b - 44) div 2)\<close> samples; sample \<open>i\<close> is the signed 16-bit little-endian
  integer at byte offsets \<open>44 + 2 * i\<close> and \<open>44 + 2 * i + 1\<close> (both inside the file),
  divided by 32768, and lies between \<open>-1\<close> and \<open>32767 / 32768\<close>; a file of fewer than
  44 bytes gives no samples, and so does a file that cannot be opened; a file with an odd
  byte after the last whole sample decodes as the same file without that byte.
\<close>

theorem read_wav_decodes_pcm:
  "(files w (c_str fname) = None \<longrightarrow> fst (read_wav fname w) = []) \<and>
   (\<forall>bytes. files w (c_str fname) = Some bytes \<longrightarrow>
      int (length (fst (read_wav fname w))) = max 0 ((int (length bytes) - 44) div 2) \<and>
      (\<forall>i < length (fst (read_wav fname w)).
         44 + 2 * i + 1 < length bytes \<and>
         fst (read_wav fname w) ! i =
           real_of_int (s16le (bytes ! (44 + 2 * i)) (bytes ! (44 + 2 * i + 1))) / 32768) \<and>
      (\<forall>x \<in> set (fst (read_wav fname w)). - 1 \<le> x \<and> x \<le> 32767 / 32768) \<and>
      (length bytes < 44 \<longrightarrow> fst (read_wav fname w) = []) \<and>
      (44 < length bytes \<and> odd (length bytes) \<longrightarrow>
         fst (read_wav fname w) =
           fst (read_wav fname (w\<lparr>files := (files w)(c_str fname := Some (butlast bytes))\<rparr>))))"
proof (intro conjI allI impI)
  assume "files w (c_str fname) = None"
  then show "fst (read_wav fname w) = []"
    by (simp add: fst_read_wav)
next
  fix bytes
  assume f: "files w (c_str fname) = Some bytes"
  then have samples: "fst (read_wav fname w) = read_samples (drop 44 bytes)"
    by (simp add: fst_read_wav)
  show "int (length (fst (read_wav fname w))) = max 0 ((int (length bytes) - 44) div 2)"
    unfolding samples length_read_samples by (simp add: max_def) linarith
  show "\<forall>x \<in> set (fst (read_wav fname w)). - 1 \<le> x \<and> x \<le> 32767 / 32768"
    unfolding samples using set_read_samples_bounds by blast
  {
    assume "length bytes < 44"
    then show "fst (read_wav fname w) = []"
      by (simp add: samples)
  }
  {
    assume "44 < length bytes \<and> odd (length bytes)"
    then have long: "44 < length bytes" and odd: "odd (length bytes)"
      by simp_all
    from long have ne: "bytes \<noteq> []"
      by auto
    have "drop 44 bytes = drop 44 (butlast bytes @ [last bytes])"
      using ne by simp
    also have "\<dots> = drop 44 (butlast bytes) @ [last bytes]"
      using long by simp
    finally have split: "drop 44 bytes = drop 44 (butlast bytes) @ [last bytes]" .
    have "even (length (drop 44 (butlast bytes)))"
      using long odd by simp
    then have "read_samples (drop 44 bytes) = read_samples (drop 44 (butlast bytes))"
      unfolding split by (rule read_samples_odd_tail)
    then show "fst (read_wav fname w) =
        fst (read_wav fname (w\<lparr>files := (files w)(c_str fname := Some (butlast bytes))\<rparr>))"
      by (simp add: fst_read_wav f)
  }
  fix i
  assume "i < length (fst (read_wav fname w))"
  then have i: "i < length (drop 44 bytes) div 2"
    by (simp add: samples length_read_samples)
  then show "44 + 2 * i + 1 < length bytes"
    by simp
  then have "drop 44 bytes ! (2 * i) = bytes ! (44 + 2 * i)"
    and "drop 44 bytes ! (2 * i + 1) = bytes ! (44 + 2 * i + 1)"
    by (simp_all add: add.assoc)
  then show "fst (read_wav fname w) ! i =
      real_of_int (s16le (bytes ! (44 + 2 * i)) (bytes ! (44 + 2 * i + 1))) / 32768"
    unfolding samples nth_read_samples [OF i]
    by (simp add: pcm_sample_def sint_int16_of_bytes del: of_int_sint)
qed

theorem read_wav_decodes_pcm_witness:
  "files sim_world (c_str ''a.wav'') = Some (replicate 44 0 @ [0x00, 0x80, 0xFF, 0x7F, 0x01]) \<and>
   fst (read_wav ''a.wav'' sim_world) = [- 1, 32767 / 32768] \<and>
   int (length (fst (read_wav ''a.wav'' sim_world))) = max 0 ((int 49 - 44) div 2) \<and>
   - 1 \<le> fst (read_wav ''a.wav'' sim_world) ! 1 \<and>
   fst (read_wav ''a.wav'' sim_world) =
     fst (read_wav ''a.wav''
       (sim_world\<lparr>files := (files sim_world)
          (c_str ''a.wav'' := Some (replicate 44 0 @ [0x00, 0x80, 0xFF, 0x7F]))\<rparr>)) \<and>
   files sim_world (c_str ''short.wav'') = Some (replicate 10 0) \<and>
   fst (read_wav ''short.wav'' sim_world) = [] \<and>
   files sim_world (c_str ''none.wav'') = None \<and>
   fst (read_wav ''none.wav'' sim_world) = []"
proof -
  have a: "files sim_world (c_str ''a.wav'') = Some (replicate 44 0 @ [0x00, 0x80, 0xFF, 0x7F, 0x01])"
    by code_simp
  have s: "files sim_world (c_str ''short.wav'') = Some (replicate 10 0)"
    by code_simp
  have n: "files sim_world (c_str ''none.wav'') = None"
    by code_simp
  have v: "fst (read_wav ''a.wav'' sim_world) = [- 1, 32767 / 32768]"
    by code_simp
  note A = read_wav_decodes_pcm [of sim_world "''a.wav''", THEN conjunct2, rule_format, OF a]
  note S = read_wav_decodes_pcm [of sim_world "''short.wav''", THEN conjunct2, rule_format, OF s]
  note N = read_wav_decodes_pcm [of sim_world "''none.wav''", THEN conjunct1, rule_format, OF n]
  have len: "int (length (fst (read_wav ''a.wav'' sim_world))) = max 0 ((int 49 - 44) div 2)"
    using A [THEN conjunct1] by simp
  have bound: "- 1 \<le> fst (read_wav ''a.wav'' sim_world) ! 1"
    using A [THEN conjunct2, THEN conjunct2, THEN conjunct1, rule_format,
        of "fst (read_wav ''a.wav'' sim_world) ! 1"] v by simp
  have tail: "fst (read_wav ''a.wav'' sim_world) =
     fst (read_wav ''a.wav''
       (sim_world\<lparr>files := (files sim_world)
          (c_str ''a.wav'' := Some (replicate 44 0 @ [0x00, 0x80, 0xFF, 0x7F]))\<rparr>))"
    using A [THEN conjunct2, THEN conjunct2, THEN conjunct2, THEN conjunct2]
    by (simp add: butlast_append)
  have short: "fst (read_wav ''short.wav'' sim_world) = []"
    using S [THEN conjunct2, THEN conjunct2, THEN conjunct2, THEN conjunct1] by simp
  show ?thesis
    using a s n v len bound tail short N by blast
qed

subsection \<open>The handle-taking entry points\<close>

lemmas collaborator_calls =
  emit_def call_GetFloatArrayElements_def call_GetArrayLength_def
  call_ReleaseFloatArrayElements_def call_AAssetManager_fromJava_def
  call_AAssetManager_open_def call_AAsset_getLength_def call_AAsset_getBuffer_def
  call_AAsset_close_def call_whisper_init_from_file_def call_whisper_init_from_buffer_def
  call_whisper_free_def call_whisper_full_def call_whisper_full_n_segments_def
  call_whisper_full_get_segment_text_def

text \<open>
  C1. With the zero handle, \<open>getTextSegmentCount\<close> returns 0, \<open>getTextSegment\<close> returns the
  Java string made from the empty C string, \<open>freeContext\<close> changes nothing, and
  \<open>fullTranscribe\<close> returns normally, whatever the array reference is. In each case the
  state afterwards is the state before with at most one error log line added: no
  collaborator other than the log was called, so the engine was not entered and the
  array was not read.
\<close>

theorem zero_handle_defaults:
  "Java_com_memexos_app_whisper_WhisperService_getTextSegmentCount P 0 w =
     (0, w\<lparr>trace := trace w @ [LOGE ''Invalid context pointer'']\<rparr>) \<and>
   Java_com_memexos_app_whisper_WhisperService_getTextSegment P 0 index w =
     (NewStringUTF P '''', w\<lparr>trace := trace w @ [LOGE ''Invalid context pointer'']\<rparr>) \<and>
   Java_com_memexos_app_whisper_WhisperService_freeContext P 0 w = w \<and>
   Java_com_memexos_app_whisper_WhisperService_fullTranscribe P 0 numThreads audioData w =
     Inr (w\<lparr>trace := trace w @ [LOGE ''Invalid context pointer'']\<rparr>)"
  by (simp add: Java_com_memexos_app_whisper_WhisperService_getTextSegmentCount_def
      Java_com_memexos_app_whisper_WhisperService_getTextSegment_def
      Java_com_memexos_app_whisper_WhisperService_freeContext_def
      Java_com_memexos_app_whisper_WhisperService_fullTranscribe_def emit_def)

theorem zero_handle_defaults_witness:
  "fst (Java_com_memexos_app_whisper_WhisperService_getTextSegmentCount sim_platform 0
          sim_after_two_runs) = 0 \<and>
   fst (Java_com_memexos_app_whisper_WhisperService_getTextSegment sim_platform 0 0
          sim_after_two_runs) = [] \<and>
   engine (snd (Java_com_memexos_app_whisper_WhisperService_getTextSegment sim_platform 0 0
          sim_after_two_runs)) = engine sim_after_two_runs \<and>
   Java_com_memexos_app_whisper_WhisperService_freeContext sim_platform 0 sim_after_two_runs =
     sim_after_two_runs \<and>
   Java_com_memexos_app_whisper_WhisperService_fullTranscribe sim_platform 0 4 7 sim_after_two_runs =
     Inr (sim_after_two_runs
            \<lparr>trace := trace sim_after_two_runs @ [LOGE ''Invalid context pointer'']\<rparr>)"
proof -
  have "NewStringUTF sim_platform '''' = []"
    by (simp add: sim_platform_def sim_NewStringUTF_def)
  then show ?thesis
    using zero_handle_defaults [where P = sim_platform and w = sim_after_two_runs
        and index = 0 and numThreads = 4 and audioData = 7]
    by simp
qed

text \<open>
  C2, as the code has it. \<open>getTextSegment\<close> returns the Java string made from the empty C
  string when the handle is zero and when the engine's text pointer is null; otherwise it
  returns the Java string made from the text the engine returned for that index. The
  index goes to the engine as it came: the bridge does not compare it with the segment
  count. The engine's state is left as it was.
\<close>

theorem getTextSegment_result:
  "(contextPtr = 0 \<longrightarrow>
      fst (Java_com_memexos_app_whisper_WhisperService_getTextSegment P contextPtr index w) =
        NewStringUTF P '''') \<and>
   (contextPtr \<noteq> 0 \<and> whisper_full_get_segment_text P contextPtr index (engine w) = None \<longrightarrow>
      fst (Java_com_memexos_app_whisper_WhisperService_getTextSegment P contextPtr index w) =
        NewStringUTF P '''') \<and>
   (\<forall>t. contextPtr \<noteq> 0 \<and> whisper_full_get_segment_text P contextPtr index (engine w) = Some t \<longrightarrow>
      fst (Java_com_memexos_app_whisper_WhisperService_getTextSegment P contextPtr index w) =
        NewStringUTF P (c_str t)) \<and>
   engine (snd (Java_com_memexos_app_whisper_WhisperService_getTextSegment P contextPtr index w)) =
     engine w"
  by (simp add: Java_com_memexos_app_whisper_WhisperService_getTextSegment_def
      call_whisper_full_get_segment_text_def emit_def)

theorem getTextSegment_result_witness:
  "fst (Java_com_memexos_app_whisper_WhisperService_getTextSegment sim_platform 0 0
          sim_after_two_runs) = NewStringUTF sim_platform '''' \<and>
   whisper_full_get_segment_text sim_platform 0x7000 2 (engine sim_after_two_runs) = None \<and>
   fst (Java_com_memexos_app_whisper_WhisperService_getTextSegment sim_platform 0x7000 2
          sim_after_two_runs) = NewStringUTF sim_platform '''' \<and>
   whisper_full_get_segment_text sim_platform 0x7000 0 (engine sim_after_two_runs) = Some ''hi'' \<and>
   fst (Java_com_memexos_app_whisper_WhisperService_getTextSegment sim_platform 0x7000 0
          sim_after_two_runs) = NewStringUTF sim_platform (c_str ''hi'')"
proof -
  have none: "whisper_full_get_segment_text sim_platform 0x7000 2 (engine sim_after_two_runs) = None"
    by code_simp
  have some: "whisper_full_get_segment_text sim_platform 0x7000 0 (engine sim_after_two_runs) = Some ''hi''"
    by code_simp
  have nz: "(0x7000 :: jlong) \<noteq> 0"
    by simp
  show ?thesis
    using none some nz
      getTextSegment_result [where P = sim_platform and contextPtr = 0 and index = 0
        and w = sim_after_two_runs]
      getTextSegment_result [where P = sim_platform and contextPtr = "0x7000" and index = 2
        and w = sim_after_two_runs]
      getTextSegment_result [where P = sim_platform and contextPtr = "0x7000" and index = 0
        and w = sim_after_two_runs]
    by simp
qed

text \<open>
  C2, as the claim has it, fails. After two transcriptions on one context, the second
  with one segment, the stand-in engine still holds the second text of the first
  transcription in its slot 1 and returns it for index 1. Index 1 is out of the range
  \<open>0 \<le> index < 1\<close> of the last transcription, and \<open>getTextSegment\<close> returns that stale
  text, not the empty string.
\<close>

theorem getTextSegment_index_unchecked:
  "fst (Java_com_memexos_app_whisper_WhisperService_getTextSegmentCount sim_platform 0x7000
          sim_after_two_runs) = 1 \<and>
   \<not> (0 \<le> sint (1 :: jint) \<and>
      sint (1 :: jint) <
        sint (fst (Java_com_memexos_app_whisper_WhisperService_getTextSegmentCount sim_platform
                     0x7000 sim_after_two_runs))) \<and>
   fst (Java_com_memexos_app_whisper_WhisperService_getTextSegment sim_platform 0x7000 1
          sim_after_two_runs) = NewStringUTF sim_platform ''world'' \<and>
   fst (Java_com_memexos_app_whisper_WhisperService_getTextSegment sim_platform 0x7000 1
          sim_after_two_runs) \<noteq> NewStringUTF sim_platform ''''"
  by code_simp

text \<open>
  C8. The parameter block of \<open>fullTranscribe\<close> with thread count 4 is the block of
  \<open>nativeTranscribe\<close>, and the block of \<open>fullTranscribe\<close> with any thread count is the block
  of \<open>nativeTranscribe\<close> with that count in \<open>n_threads\<close>. Both start from the engine's
  defaults for greedy sampling, whose other fields they keep, and both switch off the four
  printing flags and translation, set the language to \<open>en\<close>, and set offset, duration,
  token budget and audio context to 0 and \<open>single_segment\<close> to false.
\<close>

theorem wparams_differ_in_threads_only:
  "nativeTranscribe_wparams P = fullTranscribe_wparams P 4 \<and>
   fullTranscribe_wparams P numThreads = (nativeTranscribe_wparams P)\<lparr>n_threads := numThreads\<rparr> \<and>
   n_threads (fullTranscribe_wparams P numThreads) = numThreads \<and>
   n_threads (nativeTranscribe_wparams P) = 4 \<and>
   print_progress (fullTranscribe_wparams P numThreads) = False \<and>
   print_special (fullTranscribe_wparams P numThreads) = False \<and>
   print_realtime (fullTranscribe_wparams P numThreads) = False \<and>
   print_timestamps (fullTranscribe_wparams P numThreads) = False \<and>
   translate (fullTranscribe_wparams P numThreads) = False \<and>
   language (fullTranscribe_wparams P numThreads) = ''en'' \<and>
   offset_ms (fullTranscribe_wparams P numThreads) = 0 \<and>
   duration_ms (fullTranscribe_wparams P numThreads) = 0 \<and>
   single_segment (fullTranscribe_wparams P numThreads) = False \<and>
   max_tokens (fullTranscribe_wparams P numThreads) = 0 \<and>
   audio_ctx (fullTranscribe_wparams P numThreads) = 0 \<and>
   whisper_full_params.more (fullTranscribe_wparams P numThreads) =
     whisper_full_params.more (whisper_full_default_params P WHISPER_SAMPLING_GREEDY) \<and>
   whisper_full_params.more (nativeTranscribe_wparams P) =
     whisper_full_params.more (whisper_full_default_params P WHISPER_SAMPLING_GREEDY)"
  by (simp add: nativeTranscribe_wparams_def fullTranscribe_wparams_def)

theorem wparams_differ_in_threads_only_witness:
  "nativeTranscribe_wparams sim_platform = fullTranscribe_wparams sim_platform 4 \<and>
   fullTranscribe_wparams sim_platform 8 = (nativeTranscribe_wparams sim_platform)\<lparr>n_threads := 8\<rparr> \<and>
   fullTranscribe_wparams sim_platform 8 =
     \<lparr>print_progress = False, print_special = False, print_realtime = False,
      print_timestamps = False, translate = False, language = ''en'', n_threads = 8,
      offset_ms = 0, duration_ms = 0, single_segment = False, max_tokens = 0, audio_ctx = 0\<rparr>"
proof -
  have "fullTranscribe_wparams sim_platform 8 =
     \<lparr>print_progress = False, print_special = False, print_realtime = False,
      print_timestamps = False, translate = False, language = ''en'', n_threads = 8,
      offset_ms = 0, duration_ms = 0, single_segment = False, max_tokens = 0, audio_ctx = 0\<rparr>"
    by (simp add: fullTranscribe_wparams_def sim_platform_def sim_default_params_def)
  then show ?thesis
    using wparams_differ_in_threads_only [where P = sim_platform and numThreads = 8] by simp
qed

subsection \<open>Resources of the primary entry points\<close>

text \<open>
  C9. For a nonzero handle and a reference to a Java float array, \<open>fullTranscribe\<close>
  returns, the arrays of the Java heap are what they were before the call, and the one
  release of the array's elements that the call makes is in mode \<open>JNI_ABORT\<close>, which
  copies nothing back. This holds for every engine, so for every status the engine's
  transcription call returns.
\<close>

theorem fullTranscribe_leaves_array:
  assumes "contextPtr \<noteq> 0"
    and "java_arrays w audioData = Some samples"
  shows "case Java_com_memexos_app_whisper_WhisperService_fullTranscribe P contextPtr numThreads
                audioData w of
           Inl f \<Rightarrow> False
         | Inr w' \<Rightarrow>
             java_arrays w' = java_arrays w \<and>
             java_arrays w' audioData = Some samples \<and>
             filter is_array_release (events_since w w') =
               [Call_ReleaseFloatArrayElements audioData JNI_ABORT]"
proof -
  obtain status e where
    run: "whisper_full P contextPtr (fullTranscribe_wparams P numThreads) samples
            (int (length samples)) (engine w) = (status, e)"
    by (cases "whisper_full P contextPtr (fullTranscribe_wparams P numThreads) samples
            (int (length samples)) (engine w)")
  show ?thesis
  proof (cases "status = 0")
    case True
    with assms run show ?thesis
      by (simp add: Java_com_memexos_app_whisper_WhisperService_fullTranscribe_def
          collaborator_calls events_since_def Let_def)
  next
    case False
    with assms run show ?thesis
      by (simp add: Java_com_memexos_app_whisper_WhisperService_fullTranscribe_def
          collaborator_calls events_since_def Let_def)
  qed
qed

theorem fullTranscribe_leaves_array_witness:
  "(0x7000 :: jlong) \<noteq> 0 \<and>
   java_arrays sim_after_two_runs 1 = Some [0, 1 / 2, - 1 / 2, 1 / 4] \<and>
   java_arrays sim_after_two_runs 3 = Some [1 / 8] \<and>
   (case Java_com_memexos_app_whisper_WhisperService_fullTranscribe sim_platform 0x7000 4 1
           sim_after_two_runs of
      Inl f \<Rightarrow> False
    | Inr w' \<Rightarrow>
        java_arrays w' 1 = Some [0, 1 / 2, - 1 / 2, 1 / 4] \<and>
        last (trace w') = LOGI ''Audio processing completed successfully'') \<and>
   (case Java_com_memexos_app_whisper_WhisperService_fullTranscribe sim_platform 0x7000 4 3
           sim_after_two_runs of
      Inl f \<Rightarrow> False
    | Inr w' \<Rightarrow>
        java_arrays w' 3 = Some [1 / 8] \<and>
        last (trace w') = LOGE ''Failed to process audio, error code: %d'')"
proof -
  have nz: "(0x7000 :: jlong) \<noteq> 0"
    by simp
  have a1: "java_arrays sim_after_two_runs 1 = Some [0, 1 / 2, - 1 / 2, 1 / 4]"
    by code_simp
  have a3: "java_arrays sim_after_two_runs 3 = Some [1 / 8]"
    by code_simp
  have ok: "case Java_com_memexos_app_whisper_WhisperService_fullTranscribe sim_platform 0x7000 4 1
           sim_after_two_runs of
      Inl f \<Rightarrow> False
    | Inr w' \<Rightarrow> last (trace w') = LOGI ''Audio processing completed successfully''"
    by code_simp
  have bad: "case Java_com_memexos_app_whisper_WhisperService_fullTranscribe sim_platform 0x7000 4 3
           sim_after_two_runs of
      Inl f \<Rightarrow> False
    | Inr w' \<Rightarrow> last (trace w') = LOGE ''Failed to process audio, error code: %d''"
    by code_simp
  show ?thesis
    using nz a1 a3 ok bad
      fullTranscribe_leaves_array [OF nz a1, where P = sim_platform and numThreads = 4]
      fullTranscribe_leaves_array [OF nz a3, where P = sim_platform and numThreads = 4]
    by (auto split: sum.splits)
qed

text \<open>
  C10. When the asset manager is found and the asset opens, \<open>initContextFromAsset\<close> closes
  that asset exactly once and closes no other; on return the open assets are those that
  were open before the call; the close is the last call the function makes apart from
  logging, so the buffer is not passed to anything after it. When the buffer pointer is
  null or the length is not positive, the result is the zero handle and the engine is not
  entered. Otherwise the engine's buffer-load call runs once, before the close, and its
  result, zero or not, is the handle returned.
\<close>

theorem initContextFromAsset_closes_asset:
  assumes "AAssetManager_fromJava P assetManager = Some mgr"
    and "AAssetManager_open P mgr (c_str (jstring2string P assetPath)) = Some asset"
  shows "case Java_com_memexos_app_whisper_WhisperService_initContextFromAsset P assetManager
                assetPath w of
           (handle, w') \<Rightarrow>
             filter is_asset_close (events_since w w') = [Call_AAsset_close asset] \<and>
             open_assets w' = open_assets w \<and>
             hd (dropWhile is_log (rev (events_since w w'))) = Call_AAsset_close asset \<and>
             (AAsset_getBuffer P asset = None \<or> AAsset_getLength P asset \<le> 0 \<longrightarrow>
                handle = 0 \<and> engine w' = engine w \<and>
                filter is_buffer_load (events_since w w') = []) \<and>
             (\<forall>buffer. AAsset_getBuffer P asset = Some buffer \<and> 0 < AAsset_getLength P asset \<longrightarrow>
                (handle, engine w') =
                  whisper_init_from_buffer_with_params P buffer (AAsset_getLength P asset) (engine w) \<and>
                filter is_buffer_load (takeWhile (\<lambda>ev. \<not> is_asset_close ev) (events_since w w')) =
                  [Call_whisper_init_from_buffer (AAsset_getLength P asset)] \<and>
                filter is_buffer_load (events_since w w') =
                  [Call_whisper_init_from_buffer (AAsset_getLength P asset)])"
proof (cases "AAsset_getBuffer P asset")
  case None
  with assms show ?thesis
    by (simp add: Java_com_memexos_app_whisper_WhisperService_initContextFromAsset_def
        collaborator_calls events_since_def Let_def)
next
  case (Some buffer)
  show ?thesis
  proof (cases "AAsset_getLength P asset \<le> 0")
    case True
    with Some assms show ?thesis
      by (simp add: Java_com_memexos_app_whisper_WhisperService_initContextFromAsset_def
          collaborator_calls events_since_def Let_def)
  next
    case False
    obtain ctx e where
      load: "whisper_init_from_buffer_with_params P buffer (AAsset_getLength P asset) (engine w) =
               (ctx, e)"
      by (cases "whisper_init_from_buffer_with_params P buffer (AAsset_getLength P asset) (engine w)")
    show ?thesis
    proof (cases "ctx = 0")
      case True
      with False Some assms load show ?thesis
        by (simp add: Java_com_memexos_app_whisper_WhisperService_initContextFromAsset_def
            collaborator_calls events_since_def Let_def)
    next
      case nz: False
      with False Some assms load show ?thesis
        by (simp add: Java_com_memexos_app_whisper_WhisperService_initContextFromAsset_def
            collaborator_calls events_since_def Let_def)
    qed
  qed
qed

theorem initContextFromAsset_closes_asset_witness:
  "AAssetManager_fromJava sim_platform 1 = Some 10 \<and>
   AAssetManager_open sim_platform 10 (c_str (jstring2string sim_platform (sim_jstring ''ggml.bin'')))
     = Some 20 \<and>
   AAssetManager_open sim_platform 10 (c_str (jstring2string sim_platform (sim_jstring ''empty.bin'')))
     = Some 21 \<and>
   (case Java_com_memexos_app_whisper_WhisperService_initContextFromAsset sim_platform 1
           (sim_jstring ''ggml.bin'') sim_world of
      (handle, w') \<Rightarrow>
         handle = 0x7100 \<and>
         filter is_asset_close (events_since sim_world w') = [Call_AAsset_close 20] \<and>
         open_assets w' = []) \<and>
   (case Java_com_memexos_app_whisper_WhisperService_initContextFromAsset sim_platform 1
           (sim_jstring ''empty.bin'') sim_world of
      (handle, w') \<Rightarrow>
         handle = 0 \<and>
         filter is_asset_close (events_since sim_world w') = [Call_AAsset_close 21] \<and>
         open_assets w' = [])"
proof -
  have mgr: "AAssetManager_fromJava sim_platform 1 = Some 10"
    by code_simp
  have a: "AAssetManager_open sim_platform 10
      (c_str (jstring2string sim_platform (sim_jstring ''ggml.bin''))) = Some 20"
    by code_simp
  have b: "AAssetManager_open sim_platform 10
      (c_str (jstring2string sim_platform (sim_jstring ''empty.bin''))) = Some 21"
    by code_simp
  have ha: "fst (Java_com_memexos_app_whisper_WhisperService_initContextFromAsset sim_platform 1
           (sim_jstring ''ggml.bin'') sim_world) = 0x7100"
    by code_simp
  have hb: "fst (Java_com_memexos_app_whisper_WhisperService_initContextFromAsset sim_platform 1
           (sim_jstring ''empty.bin'') sim_world) = 0"
    by code_simp
  have e: "open_assets sim_world = []"
    by (simp add: sim_world_def)
  show ?thesis
    using mgr a b ha hb e
      initContextFromAsset_closes_asset [OF mgr a, where w = sim_world]
      initContextFromAsset_closes_asset [OF mgr b, where w = sim_world]
    by (simp split: prod.splits)
qed

subsection \<open>The legacy one-shot transcription\<close>

lemma int_of_size_t_small: "n < 2 ^ 31 \<Longrightarrow> int_of_size_t n = int n"
proof -
  assume small: "n < 2 ^ 31"
  then have "n < 2 ^ 32"
    by simp
  then have "take_bit 32 n = n"
    by (simp add: take_bit_nat_eq_self)
  then have u: "uint (word_of_nat n :: jint) = int n"
    by (simp add: unsigned_of_nat)
  from small have "int n < 2 ^ 31"
    by (metis of_nat_less_iff of_nat_numeral of_nat_power)
  then have "signed_take_bit 31 (int n) = int n"
    by (simp add: signed_take_bit_int_eq_self)
  then show ?thesis
    by (simp add: int_of_size_t_def sint_uint u)
qed

lemma int_of_size_t_wraps: "int_of_size_t (2 ^ 31) = - (2 ^ 31)"
  by (simp add: int_of_size_t_def)

lemma join_with_spaces_Cons:
  "join_with_spaces (t # ts) = t @ (if ts = [] then [] else '' '' @ join_with_spaces ts)"
  by (cases ts) simp_all

lemma segments_loop_done:
  "n_segments \<le> i \<Longrightarrow> segments_loop P ctx n_segments i result w = Inr (result, w)"
  by (subst segments_loop.simps) simp

text \<open>
  The loop from index \<open>i\<close> on, when the engine has a text for each of the remaining
  indices: it returns, it appends the texts joined with single spaces, and it makes one
  text query per index, in order, and no other call.
\<close>

lemma segments_loop_texts:
  assumes "\<forall>k < length ts.
             whisper_full_get_segment_text P ctx (word_of_int (i + int k)) e = Some (ts ! k)"
    and "n_segments = i + int (length ts)"
    and "engine w = e"
  shows "segments_loop P ctx n_segments i result w =
           Inr (result @ join_with_spaces (map c_str ts),
                w\<lparr>trace := trace w @
                   map (\<lambda>k. Call_whisper_full_get_segment_text ctx (word_of_int (i + int k)))
                     [0..<length ts]\<rparr>)"
  using assms
proof (induction ts arbitrary: i result w)
  case Nil
  then show ?case
    by (simp add: segments_loop_done)
next
  case (Cons t ts)
  let ?w1 = "emit (Call_whisper_full_get_segment_text ctx (word_of_int i)) w"
  have head: "whisper_full_get_segment_text P ctx (word_of_int i) (engine w) = Some t"
    using Cons.prems(1,3) by fastforce
  have tail: "\<forall>k < length ts.
      whisper_full_get_segment_text P ctx (word_of_int (i + 1 + int k)) e = Some (ts ! k)"
  proof (intro allI impI)
    fix k
    assume "k < length ts"
    then have "whisper_full_get_segment_text P ctx (word_of_int (i + int (Suc k))) e =
        Some ((t # ts) ! Suc k)"
      using Cons.prems(1) by (metis Suc_less_eq length_Cons)
    then show "whisper_full_get_segment_text P ctx (word_of_int (i + 1 + int k)) e = Some (ts ! k)"
      by (simp add: add.commute add.left_commute)
  qed
  have n: "n_segments = i + 1 + int (length ts)"
    using Cons.prems(2) by simp
  have e1: "engine ?w1 = e"
    using Cons.prems(3) by (simp add: emit_def)
  have last_index: "i < n_segments - 1 \<longleftrightarrow> ts \<noteq> []"
    using n by auto
  have shift: "map (\<lambda>k. Call_whisper_full_get_segment_text ctx (word_of_int (i + int k)))
        [0..<length (t # ts)] =
      Call_whisper_full_get_segment_text ctx (word_of_int i) #
      map (\<lambda>k. Call_whisper_full_get_segment_text ctx (word_of_int (i + 1 + int k))) [0..<length ts]"
    by (simp add: map_upt_Suc add.commute add.left_commute del: upt_Suc)
  have step: "segments_loop P ctx n_segments i result w =
      segments_loop P ctx n_segments (i + 1)
        (result @ c_str t @ (if i < n_segments - 1 then '' '' else [])) ?w1"
    using n head by (subst segments_loop.simps) (simp add: call_whisper_full_get_segment_text_def)
  show ?case
    unfolding step Cons.IH [OF tail n e1] shift
    by (simp add: last_index join_with_spaces_Cons emit_def)
qed

lemma c_str_no_NUL: "CHR 0x00 \<notin> set (c_str s)"
  unfolding c_str_def by (induction s) auto

lemma c_str_id: "CHR 0x00 \<notin> set s \<Longrightarrow> c_str s = s"
  unfolding c_str_def by (induction s) auto

lemma join_with_spaces_no_NUL:
  "\<forall>t \<in> set ts. CHR 0x00 \<notin> set t \<Longrightarrow> CHR 0x00 \<notin> set (join_with_spaces ts)"
  by (induction ts rule: join_with_spaces.induct) auto

lemma c_str_join: "c_str (join_with_spaces (map c_str ts)) = join_with_spaces (map c_str ts)"
  by (rule c_str_id, rule join_with_spaces_no_NUL) (simp add: c_str_no_NUL)

lemma filter_free_text_queries:
  "filter is_context_free (map (\<lambda>k. Call_whisper_full_get_segment_text ctx (f k)) ks) = []"
  by (induction ks) simp_all

text \<open>
  What \<open>read_wav\<close> does to the state depends on the file system only: it appends the
  same events in every state with the same files, none of them an engine call.
\<close>

lemma read_wav_world:
  "\<exists>evs. filter is_context_free evs = [] \<and> filter is_transcription evs = [] \<and>
     (\<forall>W :: 'e world. files W = files w \<longrightarrow>
        read_wav fname W = (fst (read_wav fname (w :: 'e world)), W\<lparr>trace := trace W @ evs\<rparr>))"
proof (cases "files w (c_str fname)")
  case None
  then show ?thesis
    by (intro exI [of _ "[Call_fopen (c_str fname), LOGE ''Failed to open audio file: %s'']"])
       (simp add: read_wav_def emit_def)
next
  case (Some bytes)
  then show ?thesis
    by (intro exI [of _ "[Call_fopen (c_str fname), Call_fseek 44, Call_fclose (c_str fname),
          LOGI ''Read %zu samples from %s'']"])
       (simp add: read_wav_def emit_def Let_def)
qed

text \<open>
  The whole success path: with a context, samples, status zero and a text for each index
  below the segment count, the call returns the joined transcript, and the one release of
  a context among the calls it made is that of the context it created.
\<close>

lemma nativeTranscribe_success:
  fixes w :: "'e world"
  assumes init: "whisper_init_from_file_with_params P (c_str (jstring2string P modelPath)) (engine w) =
                   (ctx, e1)"
    and ctx: "ctx \<noteq> 0"
    and samples: "fst (read_wav (jstring2string P audioPath) w) = pcmf32"
    and nonempty: "pcmf32 \<noteq> []"
    and run: "whisper_full P ctx (nativeTranscribe_wparams P) pcmf32 (int_of_size_t (length pcmf32)) e1 = (0, e2)"
    and count: "length ts = nat (sint (whisper_full_n_segments P ctx e2))"
    and texts: "\<forall>k < length ts. whisper_full_get_segment_text P ctx (of_nat k) e2 = Some (ts ! k)"
  shows "\<exists>w'. Java_com_example_memexos_WhisperWrapper_nativeTranscribe P audioPath modelPath w =
                 Inr (NewStringUTF P (join_with_spaces (map c_str ts)), w') \<and>
               filter is_context_free (events_since w w') = [Call_whisper_free ctx] \<and>
               engine w' = whisper_free P ctx e2 \<and>
               hd (dropWhile is_log (rev (events_since w w'))) = Call_whisper_free ctx"
proof -
  let ?n = "sint (whisper_full_n_segments P ctx e2)"
  obtain evs where evs: "filter is_context_free evs = []"
    and rw: "\<And>W :: 'e world. files W = files w \<Longrightarrow>
        read_wav (jstring2string P audioPath) W = (pcmf32, W\<lparr>trace := trace W @ evs\<rparr>)"
    using read_wav_world [of w "jstring2string P audioPath"] samples by auto
  show ?thesis
  proof (cases "?n \<le> 0")
    case True
    then have "ts = []"
      using count by simp
    with True init ctx nonempty run show ?thesis
      by (simp add: Java_com_example_memexos_WhisperWrapper_nativeTranscribe_def
          call_whisper_init_from_file_def call_whisper_full_def call_whisper_full_n_segments_def
          call_whisper_free_def Let_def events_since_def emit_def rw evs segments_loop_done c_str_def)
  next
    case False
    then have n: "?n = 0 + int (length ts)"
      using count by simp
    have t: "\<forall>k < length ts.
        whisper_full_get_segment_text P ctx (word_of_int (0 + int k)) e2 = Some (ts ! k)"
      using texts by simp
    note loop = segments_loop_texts [OF t n, where result = "[]"]
    from init ctx nonempty run show ?thesis
      by (simp add: Java_com_example_memexos_WhisperWrapper_nativeTranscribe_def
          call_whisper_init_from_file_def call_whisper_full_def call_whisper_full_n_segments_def
          call_whisper_free_def Let_def events_since_def emit_def rw evs loop c_str_join
          filter_free_text_queries)
  qed
qed

text \<open>The three paths that end in an error sentinel.\<close>

lemma nativeTranscribe_no_model:
  fixes w :: "'e world"
  assumes "whisper_init_from_file_with_params P (c_str (jstring2string P modelPath)) (engine w) =
             (0, e1)"
  shows "Java_com_example_memexos_WhisperWrapper_nativeTranscribe P audioPath modelPath w =
           Inr (NewStringUTF P ''Error: Failed to load model'',
                w\<lparr>engine := e1,
                  trace := trace w @
                    [LOGI ''Starting transcription - Audio: %s, Model: %s'',
                     Call_whisper_init_from_file (c_str (jstring2string P modelPath)),
                     LOGE ''Failed to load model from: %s'']\<rparr>)"
  using assms
  by (simp add: Java_com_example_memexos_WhisperWrapper_nativeTranscribe_def
      call_whisper_init_from_file_def emit_def Let_def)

lemma nativeTranscribe_no_audio:
  fixes w :: "'e world"
  assumes init: "whisper_init_from_file_with_params P (c_str (jstring2string P modelPath)) (engine w) =
                   (ctx, e1)"
    and ctx: "ctx \<noteq> 0"
    and samples: "fst (read_wav (jstring2string P audioPath) w) = []"
  shows "\<exists>w'. Java_com_example_memexos_WhisperWrapper_nativeTranscribe P audioPath modelPath w =
                 Inr (NewStringUTF P ''Error: Failed to read audio file'', w') \<and>
               filter is_context_free (events_since w w') = [Call_whisper_free ctx] \<and>
               filter is_transcription (events_since w w') = [] \<and>
               engine w' = whisper_free P ctx e1 \<and>
               hd (dropWhile is_log (rev (events_since w w'))) = Call_whisper_free ctx"
proof -
  obtain evs where evs: "filter is_context_free evs = []" "filter is_transcription evs = []"
    and rw: "\<And>W :: 'e world. files W = files w \<Longrightarrow>
        read_wav (jstring2string P audioPath) W = ([], W\<lparr>trace := trace W @ evs\<rparr>)"
    using read_wav_world [of w "jstring2string P audioPath"] samples by auto
  from init ctx show ?thesis
    by (simp add: Java_com_example_memexos_WhisperWrapper_nativeTranscribe_def
        call_whisper_init_from_file_def call_whisper_free_def Let_def events_since_def emit_def
        rw evs)
qed

lemma nativeTranscribe_failed_run:
  fixes w :: "'e world"
  assumes init: "whisper_init_from_file_with_params P (c_str (jstring2string P modelPath)) (engine w) =
                   (ctx, e1)"
    and ctx: "ctx \<noteq> 0"
    and samples: "fst (read_wav (jstring2string P audioPath) w) = pcmf32"
    and nonempty: "pcmf32 \<noteq> []"
    and run: "whisper_full P ctx (nativeTranscribe_wparams P) pcmf32 (int_of_size_t (length pcmf32)) e1 =
                (status, e2)"
    and status: "status \<noteq> 0"
  shows "\<exists>w'. Java_com_example_memexos_WhisperWrapper_nativeTranscribe P audioPath modelPath w =
                 Inr (NewStringUTF P ''Error: Failed to process audio'', w') \<and>
               filter is_context_free (events_since w w') = [Call_whisper_free ctx] \<and>
               engine w' = whisper_free P ctx e2 \<and>
               hd (dropWhile is_log (rev (events_since w w'))) = Call_whisper_free ctx"
proof -
  obtain evs where evs: "filter is_context_free evs = []"
    and rw: "\<And>W :: 'e world. files W = files w \<Longrightarrow>
        read_wav (jstring2string P audioPath) W = (pcmf32, W\<lparr>trace := trace W @ evs\<rparr>)"
    using read_wav_world [of w "jstring2string P audioPath"] samples by auto
  from init ctx nonempty run status show ?thesis
    by (simp add: Java_com_example_memexos_WhisperWrapper_nativeTranscribe_def
        call_whisper_init_from_file_def call_whisper_full_def call_whisper_free_def Let_def
        events_since_def emit_def rw evs)
qed

text \<open>
  C3. The three error sentinels are pairwise distinct C strings, and the legacy entry point
  returns the Java string made from one of them on each failure, checked in this order.
  When the engine creates no context, the result is the model-load sentinel and the call
  made three calls in all: a log line, the creation call and a log line; it opened no
  file. When a context exists and \<open>read_wav\<close> yields no sample, the result is the
  audio-read sentinel and the engine's transcription call was not made. When there are
  samples and the transcription call, made on the samples with their count narrowed to
  \<open>int\<close>, returns a nonzero status, the result is the processing sentinel.
\<close>

theorem legacy_error_sentinels:
  fixes w :: "'e world"
  assumes "whisper_init_from_file_with_params P (c_str (jstring2string P modelPath)) (engine w) =
             (ctx, e1)"
    and "fst (read_wav (jstring2string P audioPath) w) = pcmf32"
    and "whisper_full P ctx (nativeTranscribe_wparams P) pcmf32 (int_of_size_t (length pcmf32)) e1 =
           (status, e2)"
  shows "distinct [''Error: Failed to load model'', ''Error: Failed to read audio file'',
                   ''Error: Failed to process audio''] \<and>
         (case Java_com_example_memexos_WhisperWrapper_nativeTranscribe P audioPath modelPath w of
            Inl f \<Rightarrow> ctx \<noteq> 0 \<and> pcmf32 \<noteq> [] \<and> status = 0
          | Inr (r, w') \<Rightarrow>
              (ctx = 0 \<longrightarrow>
                 r = NewStringUTF P ''Error: Failed to load model'' \<and>
                 events_since w w' =
                   [LOGI ''Starting transcription - Audio: %s, Model: %s'',
                    Call_whisper_init_from_file (c_str (jstring2string P modelPath)),
                    LOGE ''Failed to load model from: %s''] \<and>
                 filter is_file_call (events_since w w') = []) \<and>
              (ctx \<noteq> 0 \<and> pcmf32 = [] \<longrightarrow>
                 r = NewStringUTF P ''Error: Failed to read audio file'' \<and>
                 filter is_transcription (events_since w w') = []) \<and>
              (ctx \<noteq> 0 \<and> pcmf32 \<noteq> [] \<and> status \<noteq> 0 \<longrightarrow>
                 r = NewStringUTF P ''Error: Failed to process audio''))"
proof -
  consider (model) "ctx = 0" | (audio) "ctx \<noteq> 0" "pcmf32 = []"
    | (run) "ctx \<noteq> 0" "pcmf32 \<noteq> []" "status \<noteq> 0"
    | (ok) "ctx \<noteq> 0" "pcmf32 \<noteq> []" "status = 0"
    by blast
  then show ?thesis
  proof cases
    case model
    with assms(1) show ?thesis
      by (simp add: nativeTranscribe_no_model events_since_def)
  next
    case audio
    with assms(1,2) nativeTranscribe_no_audio [of P modelPath w ctx e1 audioPath]
    show ?thesis by auto
  next
    case run
    with assms nativeTranscribe_failed_run [of P modelPath w ctx e1 audioPath pcmf32 status e2]
    show ?thesis by auto
  next
    case ok
    then show ?thesis
      by (simp split: sum.split)
  qed
qed

theorem legacy_error_sentinels_witness:
  "whisper_init_from_file_with_params sim_platform
     (c_str (jstring2string sim_platform (sim_jstring ''nomodel.bin''))) (engine sim_world) =
     (0, engine sim_world) \<and>
   Java_com_example_memexos_WhisperWrapper_nativeTranscribe sim_platform (sim_jstring ''a.wav'')
     (sim_jstring ''nomodel.bin'') sim_world =
     Inr (NewStringUTF sim_platform ''Error: Failed to load model'',
          sim_world\<lparr>trace :=
            [LOGI ''Starting transcription - Audio: %s, Model: %s'',
             Call_whisper_init_from_file ''nomodel.bin'',
             LOGE ''Failed to load model from: %s'']\<rparr>) \<and>
   fst (whisper_init_from_file_with_params sim_platform
     (c_str (jstring2string sim_platform (sim_jstring ''model.bin''))) (engine sim_world)) = 0x7000 \<and>
   fst (read_wav (jstring2string sim_platform (sim_jstring ''short.wav'')) sim_world) = [] \<and>
   (case Java_com_example_memexos_WhisperWrapper_nativeTranscribe sim_platform
           (sim_jstring ''short.wav'') (sim_jstring ''model.bin'') sim_world of
      Inl f \<Rightarrow> False
    | Inr (r, w') \<Rightarrow> r = NewStringUTF sim_platform ''Error: Failed to read audio file'') \<and>
   fst (read_wav (jstring2string sim_platform (sim_jstring ''one.wav'')) sim_world) = [1 / 2] \<and>
   (case Java_com_example_memexos_WhisperWrapper_nativeTranscribe sim_platform
           (sim_jstring ''one.wav'') (sim_jstring ''model.bin'') sim_world of
      Inl f \<Rightarrow> False
    | Inr (r, w') \<Rightarrow> r = NewStringUTF sim_platform ''Error: Failed to process audio'')"
proof -
  let ?e1 = "\<lparr>sim_live = [0x7000], sim_n_segments = 0, sim_slots = []\<rparr>"
  have nomodel: "whisper_init_from_file_with_params sim_platform
     (c_str (jstring2string sim_platform (sim_jstring ''nomodel.bin''))) (engine sim_world) =
     (0, engine sim_world)"
    by code_simp
  have nomodel_path: "c_str (jstring2string sim_platform (sim_jstring ''nomodel.bin'')) = ''nomodel.bin''"
    by code_simp
  have model: "whisper_init_from_file_with_params sim_platform
     (c_str (jstring2string sim_platform (sim_jstring ''model.bin''))) (engine sim_world) =
     (0x7000, ?e1)"
    by code_simp
  have a: "fst (read_wav (jstring2string sim_platform (sim_jstring ''a.wav'')) sim_world) =
      [- 1, 32767 / 32768]"
    by code_simp
  have short: "fst (read_wav (jstring2string sim_platform (sim_jstring ''short.wav'')) sim_world) = []"
    by code_simp
  have one: "fst (read_wav (jstring2string sim_platform (sim_jstring ''one.wav'')) sim_world) = [1 / 2]"
    by code_simp
  have run_a: "whisper_full sim_platform 0 (nativeTranscribe_wparams sim_platform)
      [- 1, 32767 / 32768] (int_of_size_t (length [- 1, 32767 / 32768 :: real])) (engine sim_world) =
      (0, \<lparr>sim_live = [], sim_n_segments = 1, sim_slots = [''hi'']\<rparr>)"
    by code_simp
  have run_short: "whisper_full sim_platform 0x7000 (nativeTranscribe_wparams sim_platform)
      [] (int_of_size_t (length ([] :: real list))) ?e1 = (1, ?e1)"
    by code_simp
  have run_one: "whisper_full sim_platform 0x7000 (nativeTranscribe_wparams sim_platform)
      [1 / 2] (int_of_size_t (length [1 / 2 :: real])) ?e1 = (1, ?e1)"
    by code_simp
  have trace0: "trace sim_world = []" and engine0: "sim_world\<lparr>engine := engine sim_world\<rparr> = sim_world"
    by (simp_all add: sim_world_def)
  have r1: "Java_com_example_memexos_WhisperWrapper_nativeTranscribe sim_platform (sim_jstring ''a.wav'')
     (sim_jstring ''nomodel.bin'') sim_world =
     Inr (NewStringUTF sim_platform ''Error: Failed to load model'',
          sim_world\<lparr>trace :=
            [LOGI ''Starting transcription - Audio: %s, Model: %s'',
             Call_whisper_init_from_file ''nomodel.bin'',
             LOGE ''Failed to load model from: %s'']\<rparr>)"
    using legacy_error_sentinels [OF nomodel a run_a] nomodel_path trace0
    by (auto simp: events_since_def nativeTranscribe_no_model [OF nomodel] split: sum.splits)
  have r2: "case Java_com_example_memexos_WhisperWrapper_nativeTranscribe sim_platform
           (sim_jstring ''short.wav'') (sim_jstring ''model.bin'') sim_world of
      Inl f \<Rightarrow> False
    | Inr (r, w') \<Rightarrow> r = NewStringUTF sim_platform ''Error: Failed to read audio file''"
    using legacy_error_sentinels [OF model short run_short]
    by (auto split: sum.splits)
  have r3: "case Java_com_example_memexos_WhisperWrapper_nativeTranscribe sim_platform
           (sim_jstring ''one.wav'') (sim_jstring ''model.bin'') sim_world of
      Inl f \<Rightarrow> False
    | Inr (r, w') \<Rightarrow> r = NewStringUTF sim_platform ''Error: Failed to process audio''"
    using legacy_error_sentinels [OF model one run_one]
    by (auto split: sum.splits)
  show ?thesis
    using nomodel model short one r1 r2 r3 by simp
qed

text \<open>
  C4. Name the context the engine creates for the model path, the samples \<open>read_wav\<close>
  yields and the status of the transcription call made on them with their count narrowed
  to \<open>int\<close>. If, on the success path, the engine
  has a text for every index below its segment count (the loop faults on a null text),
  then the legacy entry point returns, and among the calls it made the releases of a
  context are: none when no context was created, and otherwise exactly one, of the
  context created. The release is applied to the engine: on return the engine is in the
  state \<open>whisper_free\<close> gives from the state the last engine call before it left (that of
  the creation on the empty-audio path, that of the transcription on the other two), and
  with no context it is in the state the failed creation left. The release is the last
  call the function makes apart from logging. This covers the empty-audio path, the
  failed-processing path and the success path.
\<close>

theorem legacy_releases_context_once:
  fixes w :: "'e world"
  assumes init: "whisper_init_from_file_with_params P (c_str (jstring2string P modelPath)) (engine w) =
                   (ctx, e1)"
    and samples: "fst (read_wav (jstring2string P audioPath) w) = pcmf32"
    and run: "whisper_full P ctx (nativeTranscribe_wparams P) pcmf32 (int_of_size_t (length pcmf32)) e1 =
                (status, e2)"
    and texts: "ctx \<noteq> 0 \<and> pcmf32 \<noteq> [] \<and> status = 0 \<longrightarrow>
                  (\<forall>k < nat (sint (whisper_full_n_segments P ctx e2)).
                     whisper_full_get_segment_text P ctx (of_nat k) e2 \<noteq> None)"
  shows "case Java_com_example_memexos_WhisperWrapper_nativeTranscribe P audioPath modelPath w of
           Inl f \<Rightarrow> False
         | Inr (r, w') \<Rightarrow>
             filter is_context_free (events_since w w') =
               (if ctx = 0 then [] else [Call_whisper_free ctx]) \<and>
             engine w' =
               (if ctx = 0 then e1
                else if pcmf32 = [] then whisper_free P ctx e1
                else whisper_free P ctx e2) \<and>
             (ctx \<noteq> 0 \<longrightarrow>
                hd (dropWhile is_log (rev (events_since w w'))) = Call_whisper_free ctx)"
proof -
  consider (model) "ctx = 0" | (audio) "ctx \<noteq> 0" "pcmf32 = []"
    | (run) "ctx \<noteq> 0" "pcmf32 \<noteq> []" "status \<noteq> 0"
    | (ok) "ctx \<noteq> 0" "pcmf32 \<noteq> []" "status = 0"
    by blast
  then show ?thesis
  proof cases
    case model
    with init show ?thesis
      by (simp add: nativeTranscribe_no_model events_since_def)
  next
    case audio
    with init samples nativeTranscribe_no_audio [of P modelPath w ctx e1 audioPath]
    show ?thesis by auto
  next
    case run
    with init samples assms(3)
      nativeTranscribe_failed_run [of P modelPath w ctx e1 audioPath pcmf32 status e2]
    show ?thesis by auto
  next
    case ok
    define ts where
      "ts = map (\<lambda>k. the (whisper_full_get_segment_text P ctx (of_nat k) e2))
              [0..<nat (sint (whisper_full_n_segments P ctx e2))]"
    have count: "length ts = nat (sint (whisper_full_n_segments P ctx e2))"
      by (simp add: ts_def)
    have tx: "\<forall>k < length ts. whisper_full_get_segment_text P ctx (of_nat k) e2 = Some (ts ! k)"
      using texts ok by (auto simp: ts_def)
    have run0: "whisper_full P ctx (nativeTranscribe_wparams P) pcmf32 (int_of_size_t (length pcmf32))
        e1 = (0, e2)"
      using run ok(3) by simp
    from nativeTranscribe_success [OF init ok(1) samples ok(2) run0 count tx] ok(1,2)
    show ?thesis by auto
  qed
qed

theorem legacy_releases_context_once_witness:
  "(case Java_com_example_memexos_WhisperWrapper_nativeTranscribe sim_platform
           (sim_jstring ''four.wav'') (sim_jstring ''nomodel.bin'') sim_world of
      Inl f \<Rightarrow> False
    | Inr (r, w') \<Rightarrow>
        filter is_context_free (events_since sim_world w') = [] \<and>
        engine w' = engine sim_world) \<and>
   (case Java_com_example_memexos_WhisperWrapper_nativeTranscribe sim_platform
           (sim_jstring ''short.wav'') (sim_jstring ''model.bin'') sim_world of
      Inl f \<Rightarrow> False
    | Inr (r, w') \<Rightarrow>
        filter is_context_free (events_since sim_world w') = [Call_whisper_free 0x7000] \<and>
        sim_live (engine w') = []) \<and>
   (case Java_com_example_memexos_WhisperWrapper_nativeTranscribe sim_platform
           (sim_jstring ''one.wav'') (sim_jstring ''model.bin'') sim_world of
      Inl f \<Rightarrow> False
    | Inr (r, w') \<Rightarrow>
        filter is_context_free (events_since sim_world w') = [Call_whisper_free 0x7000] \<and>
        sim_live (engine w') = []) \<and>
   (case Java_com_example_memexos_WhisperWrapper_nativeTranscribe sim_platform
           (sim_jstring ''four.wav'') (sim_jstring ''model.bin'') sim_world of
      Inl f \<Rightarrow> False
    | Inr (r, w') \<Rightarrow>
        filter is_context_free (events_since sim_world w') = [Call_whisper_free 0x7000] \<and>
        sim_live (engine w') = [])"
proof -
  let ?e1 = "\<lparr>sim_live = [0x7000], sim_n_segments = 0, sim_slots = []\<rparr>"
  let ?e2 = "\<lparr>sim_live = [0x7000], sim_n_segments = 2, sim_slots = [''hello'', ''world'']\<rparr>"
  let ?four = "[1 / 2, - 1 / 2, 1 / 4, 1 / 8] :: real list"
  have nomodel: "whisper_init_from_file_with_params sim_platform
     (c_str (jstring2string sim_platform (sim_jstring ''nomodel.bin''))) (engine sim_world) =
     (0, engine sim_world)"
    by code_simp
  have model: "whisper_init_from_file_with_params sim_platform
     (c_str (jstring2string sim_platform (sim_jstring ''model.bin''))) (engine sim_world) =
     (0x7000, ?e1)"
    by code_simp
  have four: "fst (read_wav (jstring2string sim_platform (sim_jstring ''four.wav'')) sim_world) = ?four"
    by code_simp
  have short: "fst (read_wav (jstring2string sim_platform (sim_jstring ''short.wav'')) sim_world) = []"
    by code_simp
  have one: "fst (read_wav (jstring2string sim_platform (sim_jstring ''one.wav'')) sim_world) = [1 / 2]"
    by code_simp
  have run_nomodel: "whisper_full sim_platform 0 (nativeTranscribe_wparams sim_platform)
      ?four (int_of_size_t (length ?four)) (engine sim_world) =
      (0, \<lparr>sim_live = [], sim_n_segments = 2, sim_slots = [''hello'', ''world'']\<rparr>)"
    by code_simp
  have run_short: "whisper_full sim_platform 0x7000 (nativeTranscribe_wparams sim_platform)
      [] (int_of_size_t (length ([] :: real list))) ?e1 = (1, ?e1)"
    by code_simp
  have run_one: "whisper_full sim_platform 0x7000 (nativeTranscribe_wparams sim_platform)
      [1 / 2] (int_of_size_t (length [1 / 2 :: real])) ?e1 = (1, ?e1)"
    by code_simp
  have run_four: "whisper_full sim_platform 0x7000 (nativeTranscribe_wparams sim_platform)
      ?four (int_of_size_t (length ?four)) ?e1 = (0, ?e2)"
    by code_simp
  have texts: "\<forall>k < nat (sint (whisper_full_n_segments sim_platform 0x7000 ?e2)).
      whisper_full_get_segment_text sim_platform 0x7000 (of_nat k) ?e2 \<noteq> None"
    by (simp add: sim_platform_def sim_get_segment_text_def All_less_Suc numeral_2_eq_2)
  have free1: "sim_live (whisper_free sim_platform 0x7000 ?e1) = []"
    and free2: "sim_live (whisper_free sim_platform 0x7000 ?e2) = []"
    by code_simp+
  have r1: "case Java_com_example_memexos_WhisperWrapper_nativeTranscribe sim_platform
           (sim_jstring ''four.wav'') (sim_jstring ''nomodel.bin'') sim_world of
      Inl f \<Rightarrow> False
    | Inr (r, w') \<Rightarrow>
        filter is_context_free (events_since sim_world w') = [] \<and>
        engine w' = engine sim_world"
    using legacy_releases_context_once [OF nomodel four run_nomodel] 
    by (simp add: free1 free2 split: sum.splits prod.splits)
  have r2: "case Java_com_example_memexos_WhisperWrapper_nativeTranscribe sim_platform
           (sim_jstring ''short.wav'') (sim_jstring ''model.bin'') sim_world of
      Inl f \<Rightarrow> False
    | Inr (r, w') \<Rightarrow>
        filter is_context_free (events_since sim_world w') = [Call_whisper_free 0x7000] \<and>
        sim_live (engine w') = []"
    using legacy_releases_context_once [OF model short run_short] 
    by (simp add: free1 free2 split: sum.splits prod.splits)
  have r3: "case Java_com_example_memexos_WhisperWrapper_nativeTranscribe sim_platform
           (sim_jstring ''one.wav'') (sim_jstring ''model.bin'') sim_world of
      Inl f \<Rightarrow> False
    | Inr (r, w') \<Rightarrow>
        filter is_context_free (events_since sim_world w') = [Call_whisper_free 0x7000] \<and>
        sim_live (engine w') = []"
    using legacy_releases_context_once [OF model one run_one] 
    by (simp add: free1 free2 split: sum.splits prod.splits)
  have t4: "(0x7000 :: jlong) \<noteq> 0 \<and> ?four \<noteq> [] \<and> (0 :: jint) = 0 \<longrightarrow>
      (\<forall>k < nat (sint (whisper_full_n_segments sim_platform 0x7000 ?e2)).
        whisper_full_get_segment_text sim_platform 0x7000 (of_nat k) ?e2 \<noteq> None)"
    using texts by blast
  have r4: "case Java_com_example_memexos_WhisperWrapper_nativeTranscribe sim_platform
           (sim_jstring ''four.wav'') (sim_jstring ''model.bin'') sim_world of
      Inl f \<Rightarrow> False
    | Inr (r, w') \<Rightarrow>
        filter is_context_free (events_since sim_world w') = [Call_whisper_free 0x7000] \<and>
        sim_live (engine w') = []"
    using legacy_releases_context_once [OF model four run_four t4] 
    by (simp add: free1 free2 split: sum.splits prod.splits)
  show ?thesis
    using r1 r2 r3 r4 by blast
qed

text \<open>
  C7. On the success path (a context, samples, status zero from the transcription call
  made on the samples with their count narrowed to \<open>int\<close>), when the engine reports \<open>n\<close>
  segments and has the texts \<open>ts\<close> at the indices \<open>0\<close> to \<open>n - 1\<close>, the legacy entry point
  returns the Java string made from those texts, each read up to its NUL, joined with one
  space between neighbours. With no segment that is the Java string made from the empty C
  string, which is none of the three sentinels.
\<close>

theorem legacy_transcript_joined:
  fixes w :: "'e world"
  assumes "whisper_init_from_file_with_params P (c_str (jstring2string P modelPath)) (engine w) =
             (ctx, e1)"
    and "ctx \<noteq> 0"
    and "fst (read_wav (jstring2string P audioPath) w) = pcmf32"
    and "pcmf32 \<noteq> []"
    and "whisper_full P ctx (nativeTranscribe_wparams P) pcmf32 (int_of_size_t (length pcmf32)) e1 = (0, e2)"
    and "length ts = nat (sint (whisper_full_n_segments P ctx e2))"
    and "\<forall>k < length ts. whisper_full_get_segment_text P ctx (of_nat k) e2 = Some (ts ! k)"
  shows "case Java_com_example_memexos_WhisperWrapper_nativeTranscribe P audioPath modelPath w of
           Inl f \<Rightarrow> False
         | Inr (r, w') \<Rightarrow>
             r = NewStringUTF P (join_with_spaces (map c_str ts)) \<and>
             (ts = [] \<longrightarrow> r = NewStringUTF P '''') \<and>
             join_with_spaces ([] :: string list) \<notin>
               {''Error: Failed to load model'', ''Error: Failed to read audio file'',
                ''Error: Failed to process audio''}"
  using nativeTranscribe_success [OF assms] by auto

theorem legacy_transcript_joined_witness:
  "(case Java_com_example_memexos_WhisperWrapper_nativeTranscribe sim_platform
           (sim_jstring ''four.wav'') (sim_jstring ''model.bin'') sim_world of
      Inl f \<Rightarrow> False
    | Inr (r, w') \<Rightarrow> r = NewStringUTF sim_platform ''hello world'') \<and>
   (case Java_com_example_memexos_WhisperWrapper_nativeTranscribe sim_platform
           (sim_jstring ''a.wav'') (sim_jstring ''model.bin'') sim_world of
      Inl f \<Rightarrow> False
    | Inr (r, w') \<Rightarrow> r = NewStringUTF sim_platform ''hi'')"
proof -
  let ?e1 = "\<lparr>sim_live = [0x7000], sim_n_segments = 0, sim_slots = []\<rparr>"
  let ?e2 = "\<lparr>sim_live = [0x7000], sim_n_segments = 2, sim_slots = [''hello'', ''world'']\<rparr>"
  let ?e2' = "\<lparr>sim_live = [0x7000], sim_n_segments = 1, sim_slots = [''hi'']\<rparr>"
  let ?four = "[1 / 2, - 1 / 2, 1 / 4, 1 / 8] :: real list"
  let ?two = "[- 1, 32767 / 32768] :: real list"
  have model: "whisper_init_from_file_with_params sim_platform
     (c_str (jstring2string sim_platform (sim_jstring ''model.bin''))) (engine sim_world) =
     (0x7000, ?e1)"
    by code_simp
  have nz: "(0x7000 :: jlong) \<noteq> 0"
    by simp
  have four: "fst (read_wav (jstring2string sim_platform (sim_jstring ''four.wav'')) sim_world) = ?four"
    by code_simp
  have two: "fst (read_wav (jstring2string sim_platform (sim_jstring ''a.wav'')) sim_world) = ?two"
    by code_simp
  have ne4: "?four \<noteq> []" and ne2: "?two \<noteq> []"
    by simp_all
  have run_four: "whisper_full sim_platform 0x7000 (nativeTranscribe_wparams sim_platform)
      ?four (int_of_size_t (length ?four)) ?e1 = (0, ?e2)"
    by code_simp
  have run_two: "whisper_full sim_platform 0x7000 (nativeTranscribe_wparams sim_platform)
      ?two (int_of_size_t (length ?two)) ?e1 = (0, ?e2')"
    by code_simp
  have count4: "length [''hello'', ''world''] = nat (sint (whisper_full_n_segments sim_platform 0x7000 ?e2))"
    by (simp add: sim_platform_def)
  have count2: "length [''hi''] = nat (sint (whisper_full_n_segments sim_platform 0x7000 ?e2'))"
    by (simp add: sim_platform_def)
  have texts4: "\<forall>k < length [''hello'', ''world''].
      whisper_full_get_segment_text sim_platform 0x7000 (of_nat k) ?e2 = Some ([''hello'', ''world''] ! k)"
    by (simp add: sim_platform_def sim_get_segment_text_def All_less_Suc)
  have texts2: "\<forall>k < length [''hi''].
      whisper_full_get_segment_text sim_platform 0x7000 (of_nat k) ?e2' = Some ([''hi''] ! k)"
    by (simp add: sim_platform_def sim_get_segment_text_def)
  have j4: "join_with_spaces (map c_str [''hello'', ''world'']) = ''hello world''"
    by (simp add: c_str_def)
  have j2: "join_with_spaces (map c_str [''hi'']) = ''hi''"
    by (simp add: c_str_def)
  show ?thesis
    using legacy_transcript_joined [OF model nz four ne4 run_four count4 texts4]
      legacy_transcript_joined [OF model nz two ne2 run_two count2 texts2]
    unfolding j4 j2
    by (simp split: sum.splits prod.splits)
qed

subsection \<open>Creation and release of a context\<close>

text \<open>
  \<open>initContext\<close> returns the handle the engine's creation call returned for the model
  path read up to its NUL, zero included; it makes that one engine call, between two log
  lines, and leaves the engine in the state the call produced.
\<close>

theorem initContext_returns_engine_handle:
  "fst (Java_com_memexos_app_whisper_WhisperService_initContext P modelPath w) =
     fst (whisper_init_from_file_with_params P (c_str (jstring2string P modelPath)) (engine w)) \<and>
   engine (snd (Java_com_memexos_app_whisper_WhisperService_initContext P modelPath w)) =
     snd (whisper_init_from_file_with_params P (c_str (jstring2string P modelPath)) (engine w)) \<and>
   events_since w (snd (Java_com_memexos_app_whisper_WhisperService_initContext P modelPath w)) =
     [LOGI ''Initializing Whisper context with model: %s'',
      Call_whisper_init_from_file (c_str (jstring2string P modelPath)),
      if fst (Java_com_memexos_app_whisper_WhisperService_initContext P modelPath w) = 0
      then LOGE ''Failed to load model from: %s''
      else LOGI ''Whisper context initialized successfully'']"
  by (cases "whisper_init_from_file_with_params P (c_str (jstring2string P modelPath)) (engine w)")
     (simp add: Java_com_memexos_app_whisper_WhisperService_initContext_def
       call_whisper_init_from_file_def emit_def events_since_def Let_def)

theorem initContext_returns_engine_handle_witness:
  "fst (Java_com_memexos_app_whisper_WhisperService_initContext sim_platform
          (sim_jstring ''model.bin'') sim_world) = 0x7000 \<and>
   fst (Java_com_memexos_app_whisper_WhisperService_initContext sim_platform
          (sim_jstring ''nomodel.bin'') sim_world) = 0 \<and>
   fst (Java_com_memexos_app_whisper_WhisperService_initContext sim_platform None sim_world) = 0"
proof -
  have "fst (whisper_init_from_file_with_params sim_platform
      (c_str (jstring2string sim_platform (sim_jstring ''model.bin''))) (engine sim_world)) = 0x7000"
    and "fst (whisper_init_from_file_with_params sim_platform
      (c_str (jstring2string sim_platform (sim_jstring ''nomodel.bin''))) (engine sim_world)) = 0"
    and "fst (whisper_init_from_file_with_params sim_platform
      (c_str (jstring2string sim_platform None)) (engine sim_world)) = 0"
    by code_simp+
  then show ?thesis
    using initContext_returns_engine_handle [where P = sim_platform and w = sim_world
        and modelPath = "sim_jstring ''model.bin''"]
      initContext_returns_engine_handle [where P = sim_platform and w = sim_world
        and modelPath = "sim_jstring ''nomodel.bin''"]
      initContext_returns_engine_handle [where P = sim_platform and w = sim_world
        and modelPath = None]
    by simp
qed

text \<open>
  With a nonzero handle \<open>freeContext\<close> makes the engine's release call once, on that
  handle, and logs; the engine is left in the state the release produced.
\<close>

theorem freeContext_releases_handle:
  assumes "contextPtr \<noteq> 0"
  shows "events_since w (Java_com_memexos_app_whisper_WhisperService_freeContext P contextPtr w) =
           [Call_whisper_free contextPtr, LOGI ''Whisper context freed''] \<and>
         engine (Java_com_memexos_app_whisper_WhisperService_freeContext P contextPtr w) =
           whisper_free P contextPtr (engine w)"
  using assms
  by (simp add: Java_com_memexos_app_whisper_WhisperService_freeContext_def call_whisper_free_def
      emit_def events_since_def)

theorem freeContext_releases_handle_witness:
  "(0x7000 :: jlong) \<noteq> 0 \<and>
   engine (Java_com_memexos_app_whisper_WhisperService_freeContext sim_platform 0x7000
             sim_after_two_runs) =
     \<lparr>sim_live = [], sim_n_segments = 1, sim_slots = [''hi'', ''world'']\<rparr>"
proof -
  have nz: "(0x7000 :: jlong) \<noteq> 0"
    by simp
  have "whisper_free sim_platform 0x7000 (engine sim_after_two_runs) =
      \<lparr>sim_live = [], sim_n_segments = 1, sim_slots = [''hi'', ''world'']\<rparr>"
    by code_simp
  then show ?thesis
    using freeContext_releases_handle [OF nz, where P = sim_platform and w = sim_after_two_runs]
    by simp
qed

end
